theory Spec2Isabelle
  imports Main "HOL-Library.Word"
begin

section \<open>DOMS results storage: the data model\<close>

text \<open>
  A shallow embedding of \<^verbatim>\<open>ResultsStorage.py\<close>: the flattener
  (\<^verbatim>\<open>__prepare_result\<close>), the batch writer with its retry loop
  (\<^verbatim>\<open>__insert_result_batches\<close>, \<^verbatim>\<open>__insertResults\<close>,
  \<^verbatim>\<open>insertResults\<close>) and the reader (\<^verbatim>\<open>__rowToDataEntry\<close>,
  \<^verbatim>\<open>__retrievePrimaryData\<close>, \<^verbatim>\<open>__enrichPrimaryDataWithMatches\<close>,
  \<^verbatim>\<open>__retrieveStats\<close>, \<^verbatim>\<open>__retrieveParams\<close>, \<^verbatim>\<open>retrieveResults\<close>).

  Exceptions are values of \<open>error\<close>; a function that can raise returns \<open>error + 'a\<close>
  with \<open>Inl\<close> for the exception. Calls to the logger have no effect on any value and are
  left out.
\<close>

type_synonym uuid = "128 word"

type_synonym float = "64 word"

text \<open>A \<^verbatim>\<open>decimal.Decimal\<close>, as the driver returns a decimal column: unscaled value and exponent.\<close>

datatype decimal = Decimal int int

text \<open>
  A \<^verbatim>\<open>datetime\<close> as Python holds it: its calendar fields (year to microsecond), given
  as the reading of the wall clock in microseconds counted from 0001-01-01 00:00:00 with
  no offset applied, and the name of its \<^verbatim>\<open>tzinfo\<close>, \<open>None\<close> for a naive value. The
  first component is not an instant: two values with the same reading and different
  \<^verbatim>\<open>tzinfo\<close> are different instants.
\<close>

datatype datetime = DateTime (wall_clock: int) (tzinfo: "string option")

datatype pyval =
    PNone
  | PBool bool
  | PInt int
  | PFloat float
  | PDec decimal
  | PStr string
  | PUuid uuid
  | PTime datetime
  | PList "pyval list"
  | PDict "(string \<times> pyval) list"

text \<open>The exceptions a call into the Python library can raise here.\<close>

datatype builtin = TypeError | ValueError | OverflowError

text \<open>
  The exceptions of the module: \<^verbatim>\<open>ResultInsertException\<close> (a subclass of \<^verbatim>\<open>IOError\<close>)
  with its message, the bare \<^verbatim>\<open>Exception("Execution not found with id '%s'" % id)\<close>
  of the two lookups, carried as its message template and the id, the exceptions of a
  missing key or attribute, those of the library, and the exception of a statement the
  driver gives up on.
\<close>

datatype error =
    KeyError string
  | AttributeError string
  | Builtin builtin
  | DriverError
  | ResultInsertException string
  | PyException string uuid

definition bindE :: "error + 'a \<Rightarrow> ('a \<Rightarrow> error + 'b) \<Rightarrow> error + 'b" where
  "bindE r f = (case r of Inl e \<Rightarrow> Inl e | Inr v \<Rightarrow> f v)"

definition lib_call :: "builtin + 'a \<Rightarrow> error + 'a" where
  "lib_call r = (case r of Inl b \<Rightarrow> Inl (Builtin b) | Inr v \<Rightarrow> Inr v)"

text \<open>A Python \<^verbatim>\<open>dict\<close> with string keys, in insertion order.\<close>

type_synonym pydict = "(string \<times> pyval) list"

text \<open>\<^verbatim>\<open>d[k]\<close>: \<^verbatim>\<open>KeyError\<close> when the key is missing.\<close>

definition getitem :: "pydict \<Rightarrow> string \<Rightarrow> error + pyval" where
  "getitem d k = (case map_of d k of None \<Rightarrow> Inl (KeyError k) | Some v \<Rightarrow> Inr v)"

text \<open>\<^verbatim>\<open>d[k] if k in d else None\<close>\<close>

definition getitem_or_None :: "pydict \<Rightarrow> string \<Rightarrow> pyval" where
  "getitem_or_None d k = (case map_of d k of None \<Rightarrow> PNone | Some v \<Rightarrow> v)"

text \<open>\<^verbatim>\<open>d[k] = v\<close>: an existing key keeps its place, a new key goes last.\<close>

fun setitem :: "'k \<Rightarrow> 'v \<Rightarrow> ('k \<times> 'v) list \<Rightarrow> ('k \<times> 'v) list" where
  "setitem k v [] = [(k, v)]"
| "setitem k v (p # ps) = (if fst p = k then (k, v) # ps else p # setitem k v ps)"

text \<open>
  The functions of the Python library and of \<^verbatim>\<open>DomsEncoder\<close> (in
  \<^verbatim>\<open>BaseDomsHandler\<close>, not part of this module) that the module calls. They are
  parameters of the model: every theorem holds for any such functions.
\<close>

record pylib =
  json_dumps :: "pyval \<Rightarrow> builtin + string"
  json_loads :: "string \<Rightarrow> builtin + pyval"
  py_float :: "decimal \<Rightarrow> float"
  py_str :: "decimal \<Rightarrow> string"
  format_3f :: "float \<Rightarrow> string"
  py_int :: "pyval \<Rightarrow> builtin + int"
  uuid_of_str :: "string \<Rightarrow> builtin + uuid"

text \<open>The argument tuple of the prepared \<^verbatim>\<open>INSERT INTO doms_data\<close>, in the order of its columns.\<close>

record insert_params =
  ip_id :: uuid
  ip_execution_id :: uuid
  ip_value_id :: pyval
  ip_primary_value_id :: pyval
  ip_x :: pyval
  ip_y :: pyval
  ip_source_dataset :: pyval
  ip_measurement_time :: pyval
  ip_platform :: pyval
  ip_device :: pyval
  ip_measurement_values_json :: string
  ip_is_primary :: int
  ip_depth :: pyval
  ip_file_url :: pyval

datatype stmt =
    InsertExecution "pyval list"
  | InsertParams "pyval list"
  | InsertStats "pyval list"
  | InsertData insert_params

text \<open>
  The world the module acts on. The Cassandra session is a log of the statements sent, in
  order; whether the statement at position \<open>i\<close> of the log completes is \<open>ok i\<close>, which
  the environment decides. \<^verbatim>\<open>uuid.uuid4()\<close> returns the values of \<open>uuid4_stream\<close> one
  after the other; \<^verbatim>\<open>sleep\<close> adds to \<open>slept\<close>.
\<close>

record world =
  ok :: "nat \<Rightarrow> bool"
  log :: "stmt list"
  slept :: nat
  uuid4_stream :: "nat \<Rightarrow> uuid"
  uuid4_drawn :: nat

definition uuid4 :: "world \<Rightarrow> uuid \<times> world" where
  "uuid4 w = (uuid4_stream w (uuid4_drawn w), w\<lparr>uuid4_drawn := Suc (uuid4_drawn w)\<rparr>)"

definition sleep :: "nat \<Rightarrow> world \<Rightarrow> world" where
  "sleep t w = w\<lparr>slept := slept w + t\<rparr>"

text \<open>\<^verbatim>\<open>session.execute(cql, args)\<close>: the statement is sent; the call raises when the store fails it.\<close>

definition execute :: "stmt \<Rightarrow> world \<Rightarrow> (error + unit) \<times> world" where
  "execute s w =
     (if ok w (length (log w)) then Inr () else Inl DriverError, w\<lparr>log := log w @ [s]\<rparr>)"

text \<open>\<^verbatim>\<open>session.execute_async(stmt, entry)\<close>: the statement is sent; the future is its position.\<close>

definition execute_async :: "stmt \<Rightarrow> world \<Rightarrow> nat \<times> world" where
  "execute_async s w = (length (log w), w\<lparr>log := log w @ [s]\<rparr>)"

text \<open>\<^verbatim>\<open>future.result()\<close> returns (\<open>True\<close>) or raises (\<open>False\<close>).\<close>

definition future_result :: "world \<Rightarrow> nat \<Rightarrow> bool" where
  "future_result w f = ok w f"

section \<open>The flattener\<close>

text \<open>
  A result of the matchup: the dictionary of a point without its key \<^verbatim>\<open>"matches"\<close>,
  and the value of that key (a list of results) held apart; \<open>None\<close> when the dictionary
  has no such key.
\<close>

datatype matchpoint = MatchPoint pydict "matchpoint list option"

fun data_of :: "pydict \<Rightarrow> pyval" where
  "data_of result =
     (case map_of result ''primary'' of
        Some d \<Rightarrow> d
      | None \<Rightarrow> (case map_of result ''secondary'' of Some d \<Rightarrow> d | None \<Rightarrow> PList []))"

text \<open>
  The tuple \<^verbatim>\<open>insert_params\<close> of \<^verbatim>\<open>__prepare_result\<close>; its components are
  evaluated from left to right, so the first missing key or failing call is the one raised.
\<close>

definition make_insert_params ::
  "pylib \<Rightarrow> uuid \<Rightarrow> uuid \<Rightarrow> pyval \<Rightarrow> pydict \<Rightarrow> error + insert_params" where
  "make_insert_params lib result_id execution_id primaryId result =
     bindE (getitem result ''id'') (\<lambda>vid.
     bindE (getitem result ''lon'') (\<lambda>lon.
     bindE (getitem result ''lat'') (\<lambda>lat.
     bindE (getitem result ''source'') (\<lambda>source.
     bindE (getitem result ''time'') (\<lambda>time.
     bindE (lib_call (json_dumps lib (data_of result))) (\<lambda>js.
     bindE (getitem result ''depth'') (\<lambda>depth.
     bindE (getitem result ''fileurl'') (\<lambda>fileurl.
       Inr \<lparr>ip_id = result_id,
            ip_execution_id = execution_id,
            ip_value_id = vid,
            ip_primary_value_id = primaryId,
            ip_x = lon,
            ip_y = lat,
            ip_source_dataset = source,
            ip_measurement_time = time,
            ip_platform = getitem_or_None result ''platform'',
            ip_device = getitem_or_None result ''device'',
            ip_measurement_values_json = js,
            ip_is_primary = (if primaryId = PNone then 1 else 0),
            ip_depth = depth,
            ip_file_url = fileurl\<rparr>))))))))"

text \<open>
  \<^verbatim>\<open>__prepare_result(execution_id, primaryId, result, insertStatement)\<close>, and the loop
  over \<^verbatim>\<open>result["matches"]\<close>, which calls it on each match with
  \<^verbatim>\<open>result["id"]\<close> as the new \<^verbatim>\<open>primaryId\<close>.
\<close>

fun prepare_result ::
      "pylib \<Rightarrow> uuid \<Rightarrow> pyval \<Rightarrow> matchpoint \<Rightarrow> world \<Rightarrow> (error + insert_params list) \<times> world"
  and prepare_matches ::
      "pylib \<Rightarrow> uuid \<Rightarrow> pyval \<Rightarrow> matchpoint list \<Rightarrow> world \<Rightarrow> (error + insert_params list) \<times> world"
where
  "prepare_result lib execution_id primaryId (MatchPoint result ms) w =
     (case uuid4 w of (result_id, w1) \<Rightarrow>
        (case make_insert_params lib result_id execution_id primaryId result of
           Inl e \<Rightarrow> (Inl e, w1)
         | Inr ip \<Rightarrow>
             (case ms of
                None \<Rightarrow> (Inr [ip], w1)
              | Some cs \<Rightarrow>
                  (case prepare_matches lib execution_id (ip_value_id ip) cs w1 of
                     (Inl e, w2) \<Rightarrow> (Inl e, w2)
                   | (Inr rows, w2) \<Rightarrow> (Inr (ip # rows), w2)))))"
| "prepare_matches lib execution_id primaryId [] w = (Inr [], w)"
| "prepare_matches lib execution_id primaryId (m # rest) w =
     (case prepare_result lib execution_id primaryId m w of
        (Inl e, w1) \<Rightarrow> (Inl e, w1)
      | (Inr rows, w1) \<Rightarrow>
          (case prepare_matches lib execution_id primaryId rest w1 of
             (Inl e, w2) \<Rightarrow> (Inl e, w2)
           | (Inr others, w2) \<Rightarrow> (Inr (rows @ others), w2)))"


section \<open>The batch writer\<close>

definition BATCH_SIZE :: nat where
  "BATCH_SIZE = 1024"

text \<open>\<^verbatim>\<open>[xs[i:i + n] for i in range(0, len(xs), n)]\<close>, for a positive step \<open>n\<close>.\<close>

definition query_batches :: "nat \<Rightarrow> 'a list \<Rightarrow> 'a list list" where
  "query_batches n xs = map (\<lambda>k. take n (drop (k * n) xs)) [0 ..< (length xs + n - 1) div n]"

text \<open>The first inner loop: one \<^verbatim>\<open>execute_async\<close> per entry of the batch, the futures collected.\<close>

fun submit_batch :: "insert_params list \<Rightarrow> world \<Rightarrow> nat list \<times> world" where
  "submit_batch [] w = ([], w)"
| "submit_batch (entry # batch) w =
     (case execute_async (InsertData entry) w of (f, w1) \<Rightarrow>
        (case submit_batch batch w1 of (futures, w2) \<Rightarrow> (f # futures, w2)))"

text \<open>The second inner loop: a future that raises sets \<^verbatim>\<open>move_successful\<close> to \<^verbatim>\<open>False\<close>.\<close>

fun await_futures :: "world \<Rightarrow> nat list \<Rightarrow> bool \<Rightarrow> bool" where
  "await_futures w [] move_successful = move_successful"
| "await_futures w (f # futures) move_successful =
     await_futures w futures (if future_result w f then move_successful else False)"

fun write_batches :: "insert_params list list \<Rightarrow> bool \<Rightarrow> world \<Rightarrow> bool \<times> world" where
  "write_batches [] move_successful w = (move_successful, w)"
| "write_batches (batch # batches) move_successful w =
     (case submit_batch batch w of (futures, w1) \<Rightarrow>
        write_batches batches (await_futures w1 futures move_successful) w1)"

definition insert_result_batches :: "insert_params list \<Rightarrow> world \<Rightarrow> bool \<times> world" where
  "insert_result_batches insert_params w =
     write_batches (query_batches BATCH_SIZE insert_params) True w"

text \<open>The loop \<^verbatim>\<open>for i in range(5)\<close> of \<^verbatim>\<open>__insertResults\<close>, over the values of \<open>i\<close> still to come.\<close>

fun retry_loop :: "nat list \<Rightarrow> insert_params list \<Rightarrow> world \<Rightarrow> (error + unit) \<times> world" where
  "retry_loop [] inserts w = (Inr (), w)"
| "retry_loop (i # rest) inserts w =
     (case insert_result_batches inserts w of (success, w1) \<Rightarrow>
        if \<not> success then
          (if i < 4 then retry_loop rest inserts (sleep 10 w1)
           else (Inl (ResultInsertException ''Some result inserts failed''), w1))
        else (Inr (), w1))"

text \<open>
  \<^verbatim>\<open>__insertResults(execution_id, results)\<close>: every top-level result is flattened with
  \<^verbatim>\<open>primaryId = None\<close> into the one list \<^verbatim>\<open>inserts\<close>, then the loop runs.
  Preparing the statement is taken to succeed and sends no row.
\<close>

definition insertResults_priv ::
  "pylib \<Rightarrow> uuid \<Rightarrow> matchpoint list \<Rightarrow> world \<Rightarrow> (error + unit) \<times> world" where
  "insertResults_priv lib execution_id results w =
     (case prepare_matches lib execution_id PNone results w of
        (Inl e, w1) \<Rightarrow> (Inl e, w1)
      | (Inr inserts, w1) \<Rightarrow> retry_loop [0 ..< 5] inserts w1)"

subsection \<open>The rows of the execution, its parameters and its statistics\<close>

definition insertExecution ::
  "uuid option \<Rightarrow> pyval \<Rightarrow> pyval \<Rightarrow> pyval \<Rightarrow> world \<Rightarrow> (error + uuid) \<times> world" where
  "insertExecution execution_id startTime completeTime userEmail w =
     (case (case execution_id of None \<Rightarrow> uuid4 w | Some u \<Rightarrow> (u, w)) of (eid, w1) \<Rightarrow>
        (case execute (InsertExecution [PUuid eid, startTime, completeTime, userEmail]) w1 of
           (Inl e, w2) \<Rightarrow> (Inl e, w2)
         | (Inr u, w2) \<Rightarrow> (Inr eid, w2)))"

fun join_str :: "string \<Rightarrow> string list \<Rightarrow> string" where
  "join_str sep [] = []"
| "join_str sep [s] = s"
| "join_str sep (s # t # ss) = s @ sep @ join_str sep (t # ss)"

fun str_items :: "pyval list \<Rightarrow> error + string list" where
  "str_items [] = Inr []"
| "str_items (PStr s # vs) = bindE (str_items vs) (\<lambda>ss. Inr (s # ss))"
| "str_items (v # vs) = Inl (Builtin TypeError)"

text \<open>\<^verbatim>\<open>",".join(m) if type(m) == list else m\<close>\<close>

definition matchup_arg :: "pyval \<Rightarrow> error + pyval" where
  "matchup_arg m =
     (case m of
        PList vs \<Rightarrow> bindE (str_items vs) (\<lambda>ss. Inr (PStr (join_str '','' ss)))
      | _ \<Rightarrow> Inr m)"

definition insertParams_priv :: "pylib \<Rightarrow> uuid \<Rightarrow> pydict \<Rightarrow> world \<Rightarrow> (error + unit) \<times> world" where
  "insertParams_priv lib execution_id params w =
     (case
        bindE (getitem params ''primary'') (\<lambda>primary.
        bindE (getitem params ''matchup'') (\<lambda>m.
        bindE (matchup_arg m) (\<lambda>matchup.
        bindE (getitem params ''timeTolerance'') (\<lambda>tt.
        bindE (lib_call (py_int lib tt)) (\<lambda>timeTolerance.
        bindE (getitem params ''radiusTolerance'') (\<lambda>radiusTolerance.
        bindE (getitem params ''startTime'') (\<lambda>startTime.
        bindE (getitem params ''endTime'') (\<lambda>endTime.
        bindE (getitem params ''platforms'') (\<lambda>platforms.
        bindE (getitem params ''bbox'') (\<lambda>bbox.
        bindE (getitem params ''parameter'') (\<lambda>parameter.
          Inr [PUuid execution_id, primary, matchup,
               getitem_or_None params ''depthMin'', getitem_or_None params ''depthMax'',
               PInt timeTolerance, radiusTolerance, startTime, endTime, platforms, bbox,
               parameter])))))))))))
      of
        Inl e \<Rightarrow> (Inl e, w)
      | Inr args \<Rightarrow> execute (InsertParams args) w)"

definition insertStats_priv :: "uuid \<Rightarrow> pydict \<Rightarrow> world \<Rightarrow> (error + unit) \<times> world" where
  "insertStats_priv execution_id stats w =
     (case
        bindE (getitem stats ''numPrimaryMatched'') (\<lambda>numPrimaryMatched.
        bindE (getitem stats ''numSecondaryMatched'') (\<lambda>numSecondaryMatched.
        bindE (getitem stats ''timeToComplete'') (\<lambda>timeToComplete.
          Inr [PUuid execution_id, numPrimaryMatched, PNone, numSecondaryMatched, PNone,
               timeToComplete])))
      of
        Inl e \<Rightarrow> (Inl e, w)
      | Inr args \<Rightarrow> execute (InsertStats args) w)"

text \<open>
  \<^verbatim>\<open>insertResults(results, params, stats, startTime, completeTime, userEmail, execution_id)\<close>.
  The argument \<^verbatim>\<open>execution_id\<close> is \<^verbatim>\<open>None\<close>, a string (\<open>Inl\<close>, parsed by
  \<^verbatim>\<open>uuid.UUID\<close>) or a UUID (\<open>Inr\<close>).
\<close>

definition insertResults ::
  "pylib \<Rightarrow> matchpoint list \<Rightarrow> pydict \<Rightarrow> pydict \<Rightarrow> pyval \<Rightarrow> pyval \<Rightarrow> pyval \<Rightarrow>
   (string + uuid) option \<Rightarrow> world \<Rightarrow> (error + uuid) \<times> world" where
  "insertResults lib results params stats startTime completeTime userEmail execution_id w =
     (case (case execution_id of
              None \<Rightarrow> Inr None
            | Some (Inl s) \<Rightarrow> bindE (lib_call (uuid_of_str lib s)) (\<lambda>u. Inr (Some u))
            | Some (Inr u) \<Rightarrow> Inr (Some u)) of
        Inl e \<Rightarrow> (Inl e, w)
      | Inr given \<Rightarrow>
          (case insertExecution given startTime completeTime userEmail w of
             (Inl e, w1) \<Rightarrow> (Inl e, w1)
           | (Inr eid, w1) \<Rightarrow>
               (case insertParams_priv lib eid params w1 of
                  (Inl e, w2) \<Rightarrow> (Inl e, w2)
                | (Inr u, w2) \<Rightarrow>
                    (case insertStats_priv eid stats w2 of
                       (Inl e, w3) \<Rightarrow> (Inl e, w3)
                     | (Inr u, w3) \<Rightarrow>
                         (case insertResults_priv lib eid results w3 of
                            (Inl e, w4) \<Rightarrow> (Inl e, w4)
                          | (Inr u, w4) \<Rightarrow> (Inr eid, w4))))))"


section \<open>The reader\<close>

text \<open>
  A row of \<^verbatim>\<open>doms_data\<close> as the driver returns it for \<^verbatim>\<open>SELECT *\<close>. The table
  definition is not part of the module; the columns are those of the \<^verbatim>\<open>INSERT\<close> of
  \<^verbatim>\<open>__insertResults\<close> and the attributes \<^verbatim>\<open>__rowToDataEntry\<close> reads. A column
  the code dereferences unconditionally has its value type; a column the code tests
  against \<^verbatim>\<open>None\<close> is an \<open>option\<close>. The three attributes that depend on the generation
  of the schema have one more \<open>option\<close> outside: \<open>None\<close> there means that the row has no
  such attribute (\<^verbatim>\<open>hasattr\<close> is false, reading it raises \<^verbatim>\<open>AttributeError\<close>).
\<close>

record data_row =
  row_value_id :: "string option"
  row_primary_value_id :: "string option"
  row_x :: decimal
  row_y :: decimal
  row_source_dataset :: pyval
  row_measurement_time :: datetime
  row_platform :: pyval
  row_device :: pyval
  row_is_primary :: bool
  row_depth :: "decimal option"
  row_file_url :: "pyval option"
  row_measurement_values_json :: "string option option"
  row_measurement_values :: "(string \<times> decimal) list option option"

definition pystr_opt :: "string option \<Rightarrow> pyval" where
  "pystr_opt v = (case v of None \<Rightarrow> PNone | Some s \<Rightarrow> PStr s)"

text \<open>
  \<^verbatim>\<open>dt.replace(tzinfo=UTC)\<close>: the calendar fields are kept as they are and the
  \<^verbatim>\<open>tzinfo\<close> is set; no conversion between zones takes place.
\<close>

fun replace_tzinfo_UTC :: "datetime \<Rightarrow> datetime" where
  "replace_tzinfo_UTC (DateTime t tz) = DateTime t (Some ''UTC'')"

text \<open>The dictionary \<^verbatim>\<open>entry\<close> of \<^verbatim>\<open>__rowToDataEntry\<close> before the measurements are added.\<close>

definition base_entry :: "pylib \<Rightarrow> bool \<Rightarrow> data_row \<Rightarrow> pydict" where
  "base_entry lib trim_data row =
     (if trim_data then
        [(''lon'', PFloat (py_float lib (row_x row))),
         (''lat'', PFloat (py_float lib (row_y row))),
         (''source'', row_source_dataset row),
         (''time'', PTime (replace_tzinfo_UTC (row_measurement_time row)))]
      else
        [(''platform'', row_platform row),
         (''device'', row_device row),
         (''lon'', PStr (py_str lib (row_x row))),
         (''lat'', PStr (py_str lib (row_y row))),
         (''point'', PStr (''Point('' @ format_3f lib (py_float lib (row_x row)) @ '' '' @
                           format_3f lib (py_float lib (row_y row)) @ '')'')),
         (''time'', PTime (replace_tzinfo_UTC (row_measurement_time row))),
         (''depth'', (case row_depth row of None \<Rightarrow> PNone | Some d \<Rightarrow> PFloat (py_float lib d))),
         (''fileurl'', (case row_file_url row of None \<Rightarrow> PNone | Some u \<Rightarrow> u)),
         (''id'', pystr_opt (row_value_id row)),
         (''source'', row_source_dataset row)])"

text \<open>The loop of the \<^verbatim>\<open>except AttributeError\<close> branch: \<^verbatim>\<open>entry[key] = float(values[key])\<close>.\<close>

fun legacy_values :: "pylib \<Rightarrow> (string \<times> decimal) list \<Rightarrow> pydict \<Rightarrow> pydict" where
  "legacy_values lib [] entry = entry"
| "legacy_values lib ((key, v) # kvs) entry =
     legacy_values lib kvs (setitem key (PFloat (py_float lib v)) entry)"

text \<open>
  \<^verbatim>\<open>__rowToDataEntry(row, trim_data)\<close>. \<^verbatim>\<open>json.loads\<close> of a null column raises
  \<^verbatim>\<open>TypeError\<close>, which the handler does not catch; so does the loop over a null
  \<^verbatim>\<open>measurement_values\<close>.
\<close>

definition rowToDataEntry :: "pylib \<Rightarrow> bool \<Rightarrow> data_row \<Rightarrow> error + pydict" where
  "rowToDataEntry lib trim_data row =
     (let entry = base_entry lib trim_data row in
      case row_measurement_values_json row of
        Some None \<Rightarrow> Inl (Builtin TypeError)
      | Some (Some js) \<Rightarrow>
          bindE (lib_call (json_loads lib js)) (\<lambda>v.
            Inr (setitem (if row_is_primary row then ''primary'' else ''secondary'') v entry))
      | None \<Rightarrow>
          (case row_measurement_values row of
             None \<Rightarrow> Inl (AttributeError ''measurement_values'')
           | Some None \<Rightarrow> Inl (Builtin TypeError)
           | Some (Some kvs) \<Rightarrow> Inr (legacy_values lib kvs entry)))"

text \<open>\<^verbatim>\<open>__retrievePrimaryData\<close>: the loop over the rows with \<^verbatim>\<open>is_primary = true\<close>.\<close>

type_synonym datamap = "(string option \<times> pydict) list"

fun retrievePrimaryData :: "pylib \<Rightarrow> bool \<Rightarrow> data_row list \<Rightarrow> datamap \<Rightarrow> error + datamap" where
  "retrievePrimaryData lib trim_data [] dataMap = Inr dataMap"
| "retrievePrimaryData lib trim_data (row # rows) dataMap =
     bindE (rowToDataEntry lib trim_data row) (\<lambda>entry.
       retrievePrimaryData lib trim_data rows (setitem (row_value_id row) entry dataMap))"

text \<open>
  \<^verbatim>\<open>if not "matches" in d: d["matches"] = []\<close> and then \<^verbatim>\<open>d["matches"].append(entry)\<close>;
  a value under \<^verbatim>\<open>"matches"\<close> that is not a list has no \<^verbatim>\<open>append\<close>.
\<close>

definition append_match :: "pydict \<Rightarrow> pydict \<Rightarrow> error + pydict" where
  "append_match entry d =
     (case map_of d ''matches'' of
        None \<Rightarrow> Inr (setitem ''matches'' (PList [PDict entry]) d)
      | Some (PList ms) \<Rightarrow> Inr (setitem ''matches'' (PList (ms @ [PDict entry])) d)
      | Some v \<Rightarrow> Inl (AttributeError ''append''))"

text \<open>
  \<^verbatim>\<open>__enrichPrimaryDataWithMatches\<close>: the loop over the rows with
  \<^verbatim>\<open>is_primary = false\<close>. The row is decoded before its parent is looked up; a row
  whose parent is not a key of \<^verbatim>\<open>dataMap\<close> is printed and left out.
\<close>

fun enrichPrimaryDataWithMatches ::
  "pylib \<Rightarrow> bool \<Rightarrow> data_row list \<Rightarrow> datamap \<Rightarrow> error + datamap" where
  "enrichPrimaryDataWithMatches lib trim_data [] dataMap = Inr dataMap"
| "enrichPrimaryDataWithMatches lib trim_data (row # rows) dataMap =
     bindE (rowToDataEntry lib trim_data row) (\<lambda>entry.
       case map_of dataMap (row_primary_value_id row) of
         Some d \<Rightarrow>
           bindE (append_match entry d) (\<lambda>d'.
             enrichPrimaryDataWithMatches lib trim_data rows
               (setitem (row_primary_value_id row) d' dataMap))
       | None \<Rightarrow> enrichPrimaryDataWithMatches lib trim_data rows dataMap)"

text \<open>
  What the store answers to the four queries of the reader, for an execution id: the rows
  of \<^verbatim>\<open>doms_params\<close> and of \<^verbatim>\<open>doms_execution_stats\<close> (at most one each, by
  \<^verbatim>\<open>limit 1\<close>) and the rows of \<^verbatim>\<open>doms_data\<close> with the given \<^verbatim>\<open>is_primary\<close>.
\<close>

record params_row =
  prow_primary_dataset :: pyval
  prow_matchup_datasets :: string
  prow_start_time :: datetime
  prow_end_time :: datetime
  prow_bounding_box :: pyval
  prow_time_tolerance :: "int option"
  prow_radius_tolerance :: "decimal option"
  prow_platforms :: pyval
  prow_parameter :: pyval
  prow_depth_min :: "decimal option"
  prow_depth_max :: "decimal option"

record stats_row =
  srow_num_gridded_matched :: pyval
  srow_num_insitu_matched :: pyval
  srow_time_to_complete :: pyval

record store =
  select_params :: "uuid \<Rightarrow> params_row list"
  select_stats :: "uuid \<Rightarrow> stats_row list"
  select_data :: "uuid \<Rightarrow> bool \<Rightarrow> data_row list"

definition retrieveData :: "store \<Rightarrow> pylib \<Rightarrow> uuid \<Rightarrow> bool \<Rightarrow> error + pydict list" where
  "retrieveData db lib eid trim_data =
     bindE (retrievePrimaryData lib trim_data (select_data db eid True) []) (\<lambda>dataMap.
     bindE (enrichPrimaryDataWithMatches lib trim_data (select_data db eid False) dataMap)
       (\<lambda>dataMap'. Inr (map snd dataMap')))"

definition retrieveStats :: "store \<Rightarrow> uuid \<Rightarrow> error + pydict" where
  "retrieveStats db eid =
     (case select_stats db eid of
        row # rows \<Rightarrow>
          Inr [(''timeToComplete'', srow_time_to_complete row),
               (''numSecondaryMatched'', srow_num_insitu_matched row),
               (''numPrimaryMatched'', srow_num_gridded_matched row)]
      | [] \<Rightarrow> Inl (PyException ''Execution not found with id '' eid))"

text \<open>\<^verbatim>\<open>s.split(",")\<close>\<close>

fun split_on :: "char \<Rightarrow> string \<Rightarrow> string list" where
  "split_on c [] = [[]]"
| "split_on c (a # s) =
     (if a = c then [] # split_on c s
      else (case split_on c s of p # ps \<Rightarrow> (a # p) # ps | [] \<Rightarrow> [[a]]))"

definition float_opt :: "pylib \<Rightarrow> decimal option \<Rightarrow> pyval" where
  "float_opt lib v = (case v of None \<Rightarrow> PNone | Some d \<Rightarrow> PFloat (py_float lib d))"

definition retrieveParams :: "store \<Rightarrow> pylib \<Rightarrow> uuid \<Rightarrow> error + pydict" where
  "retrieveParams db lib eid =
     (case select_params db eid of
        row # rows \<Rightarrow>
          (let matchup = split_on CHR '','' (prow_matchup_datasets row) in
           Inr [(''primary'', prow_primary_dataset row),
                (''matchup'', (if length matchup = 1 then PStr (matchup ! 0)
                               else PList (map PStr matchup))),
                (''startTime'', PTime (replace_tzinfo_UTC (prow_start_time row))),
                (''endTime'', PTime (replace_tzinfo_UTC (prow_end_time row))),
                (''bbox'', prow_bounding_box row),
                (''timeTolerance'',
                   (case prow_time_tolerance row of None \<Rightarrow> PNone | Some t \<Rightarrow> PInt t)),
                (''radiusTolerance'', float_opt lib (prow_radius_tolerance row)),
                (''platforms'', prow_platforms row),
                (''parameter'', prow_parameter row),
                (''depthMin'', float_opt lib (prow_depth_min row)),
                (''depthMax'', float_opt lib (prow_depth_max row))])
      | [] \<Rightarrow> Inl (PyException ''Execution not found with id '' eid))"

text \<open>
  \<^verbatim>\<open>retrieveResults(execution_id, trim_data)\<close>; the argument is a string (\<open>Inl\<close>,
  parsed by \<^verbatim>\<open>uuid.UUID\<close>) or a UUID (\<open>Inr\<close>).
\<close>

definition retrieveResults ::
  "store \<Rightarrow> pylib \<Rightarrow> string + uuid \<Rightarrow> bool \<Rightarrow> error + (pydict \<times> pydict \<times> pydict list)" where
  "retrieveResults db lib execution_id trim_data =
     bindE (case execution_id of Inl s \<Rightarrow> lib_call (uuid_of_str lib s) | Inr u \<Rightarrow> Inr u) (\<lambda>eid.
     bindE (retrieveParams db lib eid) (\<lambda>params.
     bindE (retrieveStats db eid) (\<lambda>stats.
     bindE (retrieveData db lib eid trim_data) (\<lambda>data.
       Inr (params, stats, data)))))"


section \<open>Worlds and sample data for stating and evaluating the properties\<close>

text \<open>
  The \<open>k\<close>-th write pass (counted from 0) over \<open>inserts\<close>, started in the world \<open>w\<close>
  with every earlier pass having sent each row once, has no failing row.
\<close>

definition attempt_ok :: "world \<Rightarrow> insert_params list \<Rightarrow> nat \<Rightarrow> bool" where
  "attempt_ok w inserts k =
     (\<forall>i < length inserts. ok w (length (log w) + k * length inserts + i))"

text \<open>The world after \<open>k\<close> write passes over \<open>inserts\<close> and \<open>s\<close> waits of 10 seconds.\<close>

definition attempts_done :: "nat \<Rightarrow> nat \<Rightarrow> insert_params list \<Rightarrow> world \<Rightarrow> world" where
  "attempts_done k s inserts w =
     w\<lparr>log := log w @ concat (replicate k (map InsertData inserts)),
       slept := slept w + 10 * s\<rparr>"

text \<open>The world after \<open>j\<close> runs of the write pass over the same \<open>inserts\<close>.\<close>

fun write_passes :: "nat \<Rightarrow> insert_params list \<Rightarrow> world \<Rightarrow> world" where
  "write_passes 0 inserts w = w"
| "write_passes (Suc j) inserts w = write_passes j inserts (snd (insert_result_batches inserts w))"

text \<open>
  The reconstruction as the specification words it: each entry of the top-level mapping
  gets, appended to its list of matches, the decoded rows whose parent reference is its
  key, in the order read; nothing else changes.
\<close>

definition old_matches :: "pydict \<Rightarrow> pyval list" where
  "old_matches d = (case map_of d ''matches'' of Some (PList ms) \<Rightarrow> ms | _ \<Rightarrow> [])"

definition matches_appendable :: "pydict \<Rightarrow> bool" where
  "matches_appendable d =
     (case map_of d ''matches'' of None \<Rightarrow> True | Some (PList ms) \<Rightarrow> True | Some v \<Rightarrow> False)"

definition decoded_children ::
  "pylib \<Rightarrow> bool \<Rightarrow> data_row list \<Rightarrow> string option \<Rightarrow> pyval list" where
  "decoded_children lib trim_data rows k =
     concat (map (\<lambda>row. case rowToDataEntry lib trim_data row of
                           Inr entry \<Rightarrow> [PDict entry] | Inl e \<Rightarrow> [])
                 (filter (\<lambda>row. row_primary_value_id row = k) rows))"

definition with_matches :: "pyval list \<Rightarrow> pydict \<Rightarrow> pydict" where
  "with_matches ms d =
     (if ms = [] then d else setitem ''matches'' (PList (old_matches d @ ms)) d)"

definition enrich_spec :: "pylib \<Rightarrow> bool \<Rightarrow> data_row list \<Rightarrow> datamap \<Rightarrow> datamap" where
  "enrich_spec lib trim_data rows dataMap =
     map (\<lambda>(k, d). (k, with_matches (decoded_children lib trim_data rows k) d)) dataMap"

text \<open>The JSON text \<^verbatim>\<open>{"sst": 10.0}\<close>; the character 0x22 is the double quote.\<close>

definition sample_json_sst :: string where
  "sample_json_sst = ''{'' @ [CHR 0x22] @ ''sst'' @ [CHR 0x22] @ '': 10.0}''"

text \<open>
  The library, tabulated on the few values the examples use:
  \<^verbatim>\<open>float(Decimal('10.0'))\<close> is the double with the bits \<^verbatim>\<open>0x4024000000000000\<close>,
  \<^verbatim>\<open>str(Decimal('10.0'))\<close> is \<^verbatim>\<open>'10.0'\<close>, \<^verbatim>\<open>json.loads('[1]')\<close> is
  \<^verbatim>\<open>[1]\<close>, and so on. On the other values the table is arbitrary and stands for
  nothing in Python; the examples do not reach them.
\<close>

definition sample_lib :: pylib where
  "sample_lib =
     \<lparr>json_dumps = (\<lambda>v. if v = PList [] then Inr ''[]''
                        else if v = PList [PInt 1] then Inr ''[1]'' else Inl TypeError),
      json_loads = (\<lambda>s. if s = ''[]'' then Inr (PList [])
                        else if s = ''[1]'' then Inr (PList [PInt 1])
                        else if s = sample_json_sst
                          then Inr (PDict [(''sst'', PFloat 0x4024000000000000)])
                        else Inl ValueError),
      py_float = (\<lambda>d. if d = Decimal 100 (- 1) then 0x4024000000000000
                      else if d = Decimal 200 (- 1) then 0x4034000000000000 else 0),
      py_str = (\<lambda>d. if d = Decimal 100 (- 1) then ''10.0''
                    else if d = Decimal 200 (- 1) then ''20.0'' else ''0''),
      format_3f = (\<lambda>f. if f = 0x4024000000000000 then ''10.000''
                       else if f = 0x4034000000000000 then ''20.000'' else ''0.000''),
      py_int = (\<lambda>v. case v of PInt i \<Rightarrow> Inr i | _ \<Rightarrow> Inl TypeError),
      uuid_of_str = (\<lambda>s. Inl ValueError)\<rparr>"

text \<open>A world with an empty log in which \<^verbatim>\<open>uuid4\<close> returns 100, 101, ...\<close>

definition sample_world :: "(nat \<Rightarrow> bool) \<Rightarrow> world" where
  "sample_world oks =
     \<lparr>ok = oks, log = [], slept = 0, uuid4_stream = (\<lambda>n. 100 + of_nat n), uuid4_drawn = 0\<rparr>"

text \<open>The point \<^verbatim>\<open>P1\<close> with one match \<^verbatim>\<open>M1\<close>, and \<^verbatim>\<open>M1\<close> with a match \<^verbatim>\<open>N1\<close> of its own.\<close>

definition sample_point :: "string \<Rightarrow> string \<Rightarrow> pydict" where
  "sample_point name source =
     [(''id'', PStr name), (''lon'', PDec (Decimal 100 (- 1))), (''lat'', PDec (Decimal 200 (- 1))),
      (''source'', PStr source), (''time'', PTime (DateTime 0 None)),
      (''depth'', PNone), (''fileurl'', PNone)]"

definition sample_forest :: "matchpoint list" where
  "sample_forest =
     [MatchPoint (sample_point ''P1'' ''A'')
        (Some [MatchPoint (sample_point ''M1'' ''B'')
                 (Some [MatchPoint (sample_point ''N1'' ''C'') None])])]"

text \<open>The rows the flattener emits for the sample forest under execution id 7.\<close>

definition sample_rows :: "insert_params list" where
  "sample_rows =
     (case fst (prepare_matches sample_lib 7 PNone sample_forest (sample_world (\<lambda>i. True))) of
        Inr rows \<Rightarrow> rows | Inl e \<Rightarrow> [])"

text \<open>A call of \<^verbatim>\<open>insertResults\<close> on the sample forest with execution id 7.\<close>

definition sample_params :: pydict where
  "sample_params =
     [(''primary'', PStr ''A''), (''matchup'', PList [PStr ''B'', PStr ''C'']),
      (''timeTolerance'', PInt 86400), (''radiusTolerance'', PInt 1000),
      (''startTime'', PTime (DateTime 0 None)), (''endTime'', PTime (DateTime 1000 None)),
      (''platforms'', PStr ''1,2''), (''bbox'', PStr ''-10,-10,10,10''),
      (''parameter'', PStr ''sst'')]"

definition sample_stats :: pydict where
  "sample_stats =
     [(''numPrimaryMatched'', PInt 1), (''numSecondaryMatched'', PInt 2),
      (''timeToComplete'', PInt 5)]"

definition sample_store_call :: "(nat \<Rightarrow> bool) \<Rightarrow> (error + uuid) \<times> world" where
  "sample_store_call oks =
     insertResults sample_lib sample_forest sample_params sample_stats
       (PTime (DateTime 0 None)) (PTime (DateTime 9 None)) (PStr ''user'') (Some (Inr 7))
       (sample_world oks)"

text \<open>
  Rows of \<^verbatim>\<open>doms_data\<close> as read back: a row in the current shape, the same row in
  the legacy shape with the measurement \<^verbatim>\<open>sst\<close>, its counterpart in the current
  shape, and a legacy row with a measurement named \<^verbatim>\<open>lon\<close>.
\<close>

definition sample_data_row :: "string \<Rightarrow> string option \<Rightarrow> data_row" where
  "sample_data_row name parent =
     \<lparr>row_value_id = Some name, row_primary_value_id = parent,
      row_x = Decimal 100 (- 1), row_y = Decimal 200 (- 1),
      row_source_dataset = PStr ''A'', row_measurement_time = DateTime 0 None,
      row_platform = PNone, row_device = PNone, row_is_primary = (parent = None),
      row_depth = None, row_file_url = Some PNone,
      row_measurement_values_json = Some (Some ''[1]''), row_measurement_values = None\<rparr>"

definition sample_legacy_row :: data_row where
  "sample_legacy_row =
     (sample_data_row ''P1'' None)
       \<lparr>row_measurement_values_json := None,
        row_measurement_values := Some (Some [(''sst'', Decimal 100 (- 1))])\<rparr>"

definition sample_current_row :: data_row where
  "sample_current_row =
     (sample_data_row ''P1'' None)\<lparr>row_measurement_values_json := Some (Some sample_json_sst)\<rparr>"

definition sample_lon_row :: data_row where
  "sample_lon_row =
     (sample_data_row ''P1'' None)
       \<lparr>row_measurement_values_json := None,
        row_measurement_values := Some (Some [(''lon'', Decimal 200 (- 1))])\<rparr>"

text \<open>
  A store that holds the rows of \<^verbatim>\<open>P1\<close>, of its match \<^verbatim>\<open>M1\<close> and of the match
  \<^verbatim>\<open>N1\<close> of \<^verbatim>\<open>M1\<close> for every execution id, and no parameters and no statistics.
\<close>

definition sample_store :: store where
  "sample_store =
     \<lparr>select_params = (\<lambda>eid. []), select_stats = (\<lambda>eid. []),
      select_data = (\<lambda>eid primary.
        if primary then [sample_data_row ''P1'' None]
        else [sample_data_row ''M1'' (Some ''P1''), sample_data_row ''N1'' (Some ''M1'')])\<rparr>"

section \<open>Properties of the batch writer\<close>

subsection \<open>One write pass\<close>

lemma submit_batch_eq:
  "submit_batch b w = ([length (log w) ..< length (log w) + length b], w\<lparr>log := log w @ map InsertData b\<rparr>)"
proof (induction b arbitrary: w)
  case Nil
  then show ?case by simp
next
  case (Cons e b)
  have "[length (log w) ..< length (log w) + length (e # b)] =
          length (log w) # [Suc (length (log w)) ..< length (log w) + length (e # b)]"
    by (rule upt_conv_Cons) simp
  moreover have "length (log w) + length (e # b) = Suc (length (log w)) + length b"
    by simp
  ultimately have "[length (log w) ..< length (log w) + length (e # b)] =
          length (log w) # [Suc (length (log w)) ..< Suc (length (log w)) + length b]"
    by (simp only:)
  then show ?case
    by (simp add: Cons.IH execute_async_def del: upt_Suc)
qed

lemma await_futures_eq:
  "await_futures w fs ms = (ms \<and> (\<forall>f\<in>set fs. ok w f))"
  by (induction fs arbitrary: ms) (auto simp: future_result_def)

lemma all_less_add:
  "(\<forall>i < m + n. P i) = ((\<forall>i < m. P i) \<and> (\<forall>i < n. P (m + i)))" for m n :: nat
proof
  assume a: "\<forall>i < m + n. P i"
  show "(\<forall>i < m. P i) \<and> (\<forall>i < n. P (m + i))" using a by simp
next
  assume a: "(\<forall>i < m. P i) \<and> (\<forall>i < n. P (m + i))"
  show "\<forall>i < m + n. P i"
  proof (intro allI impI)
    fix i assume b: "i < m + n"
    show "P i"
    proof (cases "i < m")
      case True then show ?thesis using a by simp
    next
      case False
      then have "i - m < n" using b by simp
      then have "P (m + (i - m))" using a by blast
      then show ?thesis using False by simp
    qed
  qed
qed

lemma ball_upt_add:
  "Ball {a ..< a + n} P = (\<forall>i < n. P (a + i))" for a n :: nat
proof
  assume a: "Ball {a ..< a + n} P"
  show "\<forall>i < n. P (a + i)" using a by simp
next
  assume a: "\<forall>i < n. P (a + i)"
  show "Ball {a ..< a + n} P"
  proof
    fix f assume "f \<in> {a ..< a + n}"
    then have "a \<le> f" "f - a < n" by auto
    then have "P (a + (f - a))" using a by blast
    then show "P f" using \<open>a \<le> f\<close> by simp
  qed
qed

lemma write_batches_eq:
  "write_batches bs ms w =
     (ms \<and> (\<forall>i < length (concat bs). ok w (length (log w) + i)),
      w\<lparr>log := log w @ map InsertData (concat bs)\<rparr>)"
proof (induction bs arbitrary: ms w)
  case Nil
  then show ?case by simp
next
  case (Cons b bs)
  show ?case
    by (simp add: submit_batch_eq Cons.IH await_futures_eq ball_upt_add all_less_add add.assoc)
qed

lemma concat_batches_take:
  "concat (map (\<lambda>k. take n (drop (k * n) xs)) [0 ..< m]) = take (m * n) xs"
proof (induction m)
  case 0
  then show ?case by simp
next
  case (Suc m)
  have "take (m * n + n) xs = take (m * n) xs @ take n (drop (m * n) xs)"
    by (rule take_add)
  then show ?case using Suc by (simp add: add.commute)
qed

lemma ceil_div_covers: "0 < n \<Longrightarrow> l \<le> ((l + n - 1) div n) * n" for l n :: nat
proof -
  assume n: "0 < n"
  have "(l + n - 1) = ((l + n - 1) div n) * n + (l + n - 1) mod n" by simp
  moreover have "(l + n - 1) mod n \<le> n - 1" using n
    by (metis Suc_pred' less_Suc_eq_le mod_less_divisor)
  ultimately show ?thesis using n by linarith
qed

lemma concat_query_batches: "0 < n \<Longrightarrow> concat (query_batches n xs) = xs"
  using ceil_div_covers [of n "length xs"]
  by (simp add: query_batches_def concat_batches_take)

lemma insert_result_batches_eq:
  "insert_result_batches rows w =
     ((\<forall>i < length rows. ok w (length (log w) + i)), w\<lparr>log := log w @ map InsertData rows\<rparr>)"
  by (simp add: insert_result_batches_def write_batches_eq concat_query_batches BATCH_SIZE_def)

subsection \<open>The retry loop\<close>

lemma concat_replicate_snoc: "concat (replicate k xs) @ xs = concat (replicate (Suc k) xs)"
  by (induction k) simp_all

lemma length_concat_replicate: "length (concat (replicate k xs)) = k * length xs"
  by (induction k) simp_all

lemma retry_loop_step:
  assumes "a < 5"
  shows "retry_loop [a ..< 5] inserts (attempts_done a a inserts w) =
     (if attempt_ok w inserts a then (Inr (), attempts_done (Suc a) a inserts w)
      else if a < 4 then retry_loop [Suc a ..< 5] inserts (attempts_done (Suc a) (Suc a) inserts w)
      else (Inl (ResultInsertException ''Some result inserts failed''),
            attempts_done (Suc a) a inserts w))"
proof -
  have l: "[a ..< 5] = a # [Suc a ..< 5]"
    using assms by (rule upt_conv_Cons)
  have s: "concat (replicate a (map InsertData inserts)) @ map InsertData inserts
           = concat (replicate (Suc a) (map InsertData inserts))"
    by (rule concat_replicate_snoc)
  show ?thesis
    unfolding l
    using s
    by (auto simp add: insert_result_batches_eq attempts_done_def attempt_ok_def
        sleep_def length_concat_replicate add.assoc add.commute [of 10] simp del: replicate.simps)
qed

lemma retry_loop_succeeds:
  assumes "k < 5" "attempt_ok w inserts k" "\<forall>j. a \<le> j \<and> j < k \<longrightarrow> \<not> attempt_ok w inserts j" "a \<le> k"
  shows "retry_loop [a ..< 5] inserts (attempts_done a a inserts w) =
           (Inr (), attempts_done (Suc k) k inserts w)"
  using assms
proof (induction "k - a" arbitrary: a)
  case 0
  then have ak: "a = k" by simp
  have "a < 5" using ak 0 by simp
  from retry_loop_step [OF this, of inserts w] show ?case
    using 0 ak by (simp only: if_True)
next
  case (Suc d)
  then have lt: "a < k" by simp
  then have na: "\<not> attempt_ok w inserts a" using Suc.prems by simp
  have a4: "a < 4" using lt Suc.prems by simp
  have "retry_loop [Suc a ..< 5] inserts (attempts_done (Suc a) (Suc a) inserts w) =
           (Inr (), attempts_done (Suc k) k inserts w)"
    using Suc.hyps Suc.prems lt by (intro Suc.hyps(1)) auto
  moreover have "a < 5" using a4 by simp
  ultimately show ?case using na a4 by (simp only: retry_loop_step if_True if_False)
qed

lemma retry_loop_exhausted:
  assumes "a < 5" "\<forall>j. a \<le> j \<and> j < 5 \<longrightarrow> \<not> attempt_ok w inserts j"
  shows "retry_loop [a ..< 5] inserts (attempts_done a a inserts w) =
           (Inl (ResultInsertException ''Some result inserts failed''),
            attempts_done 5 4 inserts w)"
  using assms
proof (induction "4 - a" arbitrary: a)
  case 0
  then have a4: "a = 4" by simp
  have na: "\<not> attempt_ok w inserts a" using 0 by simp
  have n4: "\<not> a < 4" using a4 by simp
  have "Suc a = 5" using a4 by simp
  with retry_loop_step [OF \<open>a < 5\<close>, of inserts w] show ?case
    using na n4 a4 by (simp only: if_False)
next
  case (Suc d)
  then have a4: "a < 4" by simp
  have na: "\<not> attempt_ok w inserts a" using Suc.prems by simp
  have "retry_loop [Suc a ..< 5] inserts (attempts_done (Suc a) (Suc a) inserts w) =
           (Inl (ResultInsertException ''Some result inserts failed''),
            attempts_done 5 4 inserts w)"
    using Suc.hyps Suc.prems a4 by (intro Suc.hyps(1)) auto
  then show ?case using na a4 Suc.prems(1) by (simp only: retry_loop_step if_True if_False)
qed

lemma attempts_done_0: "attempts_done 0 0 inserts w = w"
  by (simp add: attempts_done_def)

lemma retry_loop_cases:
  "(\<exists>k < 5. attempt_ok w inserts k \<and> (\<forall>j < k. \<not> attempt_ok w inserts j) \<and>
       retry_loop [0 ..< 5] inserts w = (Inr (), attempts_done (Suc k) k inserts w)) \<or>
   ((\<forall>k < 5. \<not> attempt_ok w inserts k) \<and>
     retry_loop [0 ..< 5] inserts w =
       (Inl (ResultInsertException ''Some result inserts failed''), attempts_done 5 4 inserts w))"
proof (cases "\<exists>k. k < 5 \<and> attempt_ok w inserts k")
  case True
  then obtain k where k: "k < 5 \<and> attempt_ok w inserts k"
    "\<forall>j < k. \<not> (j < 5 \<and> attempt_ok w inserts j)"
    using exists_least_iff [of "\<lambda>k. k < 5 \<and> attempt_ok w inserts k"] by blast
  then have n: "\<forall>j. 0 \<le> j \<and> j < k \<longrightarrow> \<not> attempt_ok w inserts j" by auto
  have "retry_loop [0 ..< 5] inserts (attempts_done 0 0 inserts w) =
          (Inr (), attempts_done (Suc k) k inserts w)"
    using k n by (intro retry_loop_succeeds) auto
  then show ?thesis using k n by (auto simp: attempts_done_0)
next
  case False
  then have n: "\<forall>j. 0 \<le> j \<and> j < 5 \<longrightarrow> \<not> attempt_ok w inserts j" by auto
  have "retry_loop [0 ..< 5] inserts (attempts_done 0 0 inserts w) =
          (Inl (ResultInsertException ''Some result inserts failed''), attempts_done 5 4 inserts w)"
    using n by (intro retry_loop_exhausted) auto
  then show ?thesis using n by (auto simp: attempts_done_0)
qed

lemma write_passes_log:
  "write_passes j inserts w = w\<lparr>log := log w @ concat (replicate j (map InsertData inserts))\<rparr>"
proof (induction j arbitrary: w)
  case 0
  then show ?case by simp
next
  case (Suc j)
  have "concat (replicate (Suc j) (map InsertData inserts)) =
        map InsertData inserts @ concat (replicate j (map InsertData inserts))"
    by simp
  then show ?case
    by (simp add: Suc.IH insert_result_batches_eq del: replicate.simps)
qed

section \<open>Properties of the flattener\<close>

lemma bindE_Inr_iff: "(bindE r f = Inr v) = (\<exists>a. r = Inr a \<and> f a = Inr v)"
  by (cases r) (simp_all add: bindE_def)

lemma bindE_Inl [simp]: "bindE (Inl e) f = Inl e"
  by (simp add: bindE_def)

lemma bindE_Inr [simp]: "bindE (Inr a) f = f a"
  by (simp add: bindE_def)

lemma make_insert_params_Inr:
  assumes "make_insert_params lib rid eid pid result = Inr ip"
  shows "ip_id ip = rid" "ip_execution_id ip = eid" "ip_primary_value_id ip = pid"
    "ip_is_primary ip = (if pid = PNone then 1 else 0)"
    "getitem result ''id'' = Inr (ip_value_id ip)"
  using assms unfolding make_insert_params_def
  by (auto simp: bindE_Inr_iff)

text \<open>Flattening draws one uuid per row and touches nothing else of the world.\<close>

lemma prepare_world:
  "prepare_result lib eid pid m w = (r, w') \<Longrightarrow>
     w' = w\<lparr>uuid4_drawn := uuid4_drawn w'\<rparr> \<and>
     (\<forall>rows. r = Inr rows \<longrightarrow>
        w' = w\<lparr>uuid4_drawn := uuid4_drawn w + length rows\<rparr> \<and>
        map ip_id rows = map (uuid4_stream w) [uuid4_drawn w ..< uuid4_drawn w + length rows])"
  "prepare_matches lib eid pid ms w = (r, w') \<Longrightarrow>
     w' = w\<lparr>uuid4_drawn := uuid4_drawn w'\<rparr> \<and>
     (\<forall>rows. r = Inr rows \<longrightarrow>
        w' = w\<lparr>uuid4_drawn := uuid4_drawn w + length rows\<rparr> \<and>
        map ip_id rows = map (uuid4_stream w) [uuid4_drawn w ..< uuid4_drawn w + length rows])"
proof (induction lib eid pid m w and lib eid pid ms w arbitrary: r w' and r w'
    rule: prepare_result_prepare_matches.induct)
  case (1 lib eid pid result ms w)
  let ?w1 = "w\<lparr>uuid4_drawn := Suc (uuid4_drawn w)\<rparr>"
  let ?rid = "uuid4_stream w (uuid4_drawn w)"
  have u: "uuid4 w = (?rid, ?w1)" by (simp add: uuid4_def)
  show ?case
  proof (cases "make_insert_params lib ?rid eid pid result")
    case (Inl e)
    then show ?thesis using "1.prems" u by auto
  next
    case (Inr ip)
    note ip = make_insert_params_Inr [OF Inr]
    show ?thesis
    proof (cases ms)
      case None
      then show ?thesis using "1.prems" u Inr ip(1) by (auto simp: upt_conv_Cons)
    next
      case (Some cs)
      obtain r2 w2 where p: "prepare_matches lib eid (ip_value_id ip) cs ?w1 = (r2, w2)"
        by (cases "prepare_matches lib eid (ip_value_id ip) cs ?w1")
      note IH = "1.IH" [OF u [symmetric] Inr Some p]
      show ?thesis
      proof (cases r2)
        case (Inl e)
        then show ?thesis using "1.prems" u Inr Some p IH by auto
      next
        case (Inr rows)
        have up: "[uuid4_drawn w ..< uuid4_drawn w + Suc (length rows)] =
                  uuid4_drawn w # [Suc (uuid4_drawn w) ..< Suc (uuid4_drawn w) + length rows]"
          by (simp add: upt_conv_Cons del: upt_Suc)
        from Inr IH have w2: "w2 = ?w1\<lparr>uuid4_drawn := uuid4_drawn ?w1 + length rows\<rparr>"
          and ids: "map ip_id rows = map (uuid4_stream ?w1) [uuid4_drawn ?w1 ..< uuid4_drawn ?w1 + length rows]"
          by auto
        have res: "r = Inr (ip # rows)" "w' = w2"
          using "1.prems" u \<open>make_insert_params lib ?rid eid pid result = Inr ip\<close> Some p Inr by auto
        show ?thesis
          using res w2 ids ip(1) up by (auto simp del: upt_Suc)
      qed
    qed
  qed
next
  case (2 lib eid pid w)
  then show ?case by auto
next
  case (3 lib eid pid m rest w)
  obtain r1 w1 where p1: "prepare_result lib eid pid m w = (r1, w1)"
    by (cases "prepare_result lib eid pid m w")
  note IH1 = "3.IH"(1) [OF p1]
  show ?case
  proof (cases r1)
    case (Inl e)
    then show ?thesis using "3.prems" p1 IH1 by auto
  next
    case (Inr rows)
    obtain r2 w2 where p2: "prepare_matches lib eid pid rest w1 = (r2, w2)"
      by (cases "prepare_matches lib eid pid rest w1")
    note IH2 = "3.IH"(2) [OF p1 [symmetric] Inr p2]
    from Inr IH1 have w1: "w1 = w\<lparr>uuid4_drawn := uuid4_drawn w + length rows\<rparr>"
      and ids1: "map ip_id rows = map (uuid4_stream w) [uuid4_drawn w ..< uuid4_drawn w + length rows]"
      by auto
    show ?thesis
    proof (cases r2)
      case (Inl e)
      then show ?thesis using "3.prems" p1 p2 Inr IH2 w1 by auto
    next
      case r2: (Inr others)
      from r2 IH2 have w2: "w2 = w1\<lparr>uuid4_drawn := uuid4_drawn w1 + length others\<rparr>"
        and ids2: "map ip_id others = map (uuid4_stream w1) [uuid4_drawn w1 ..< uuid4_drawn w1 + length others]"
        by auto
      have res: "r = Inr (rows @ others)" "w' = w2"
        using "3.prems" p1 p2 Inr r2 by auto
      have up: "[uuid4_drawn w ..< uuid4_drawn w + (length rows + length others)] =
           [uuid4_drawn w ..< uuid4_drawn w + length rows] @
           [uuid4_drawn w + length rows ..< uuid4_drawn w + length rows + length others]"
        by (metis add.assoc le_add1 upt_add_eq_append)
      show ?thesis
        using res w2 w1 ids1 ids2 up by (auto simp: add.assoc)
    qed
  qed
qed

lemma sample_flatten:
  "prepare_matches sample_lib 7 PNone sample_forest (sample_world oks) =
     (Inr sample_rows, sample_world oks\<lparr>uuid4_drawn := 3\<rparr>)"
  "map ip_id sample_rows = [100, 101, 102]"
  "map ip_value_id sample_rows = [PStr ''P1'', PStr ''M1'', PStr ''N1'']"
  "map ip_primary_value_id sample_rows = [PNone, PStr ''P1'', PStr ''M1'']"
  "map ip_is_primary sample_rows = [1, 0, 0]"
  by (simp_all add: sample_rows_def sample_forest_def sample_point_def sample_lib_def
      sample_world_def make_insert_params_def uuid4_def getitem_def getitem_or_None_def
      lib_call_def)


text \<open>
  C1, as stated, fails: in the sample forest the row of \<^verbatim>\<open>P1\<close> has the row id 100,
  and the row of its match \<^verbatim>\<open>M1\<close> refers to its parent by the point identifier
  \<^verbatim>\<open>"P1"\<close>, not by that row id.
\<close>

theorem prepare_result_parent_is_not_row_id:
  "map ip_id sample_rows = [100, 101, 102] \<and>
   map ip_primary_value_id sample_rows = [PNone, PStr ''P1'', PStr ''M1''] \<and>
   ip_primary_value_id (sample_rows ! 1) \<noteq> PUuid (ip_id (sample_rows ! 0))"
  by (simp add: sample_rows_def sample_forest_def sample_point_def sample_lib_def
      sample_world_def make_insert_params_def uuid4_def getitem_def getitem_or_None_def
      lib_call_def)

lemma prepare_result_head:
  assumes "prepare_result lib eid pid (MatchPoint result cs) w = (Inr rows, w')"
  shows "\<exists>ip rest. rows = ip # rest \<and> ip_id ip = uuid4_stream w (uuid4_drawn w) \<and>
           ip_primary_value_id ip = pid \<and> ip_is_primary ip = (if pid = PNone then 1 else 0) \<and>
           getitem result ''id'' = Inr (ip_value_id ip) \<and>
           (case cs of None \<Rightarrow> rest = []
            | Some cs' \<Rightarrow> \<exists>w1. prepare_matches lib eid (ip_value_id ip) cs' w1 = (Inr rest, w'))"
proof -
  let ?w1 = "w\<lparr>uuid4_drawn := Suc (uuid4_drawn w)\<rparr>"
  let ?rid = "uuid4_stream w (uuid4_drawn w)"
  have u: "uuid4 w = (?rid, ?w1)" by (simp add: uuid4_def)
  obtain ip where mk: "make_insert_params lib ?rid eid pid result = Inr ip"
    using assms u by (cases "make_insert_params lib ?rid eid pid result") auto
  note f = make_insert_params_Inr [OF mk]
  show ?thesis
  proof (cases cs)
    case None
    then have "rows = [ip]" using assms u mk by simp
    then show ?thesis using f None by simp
  next
    case (Some cs')
    obtain r2 w2 where p: "prepare_matches lib eid (ip_value_id ip) cs' ?w1 = (r2, w2)"
      by (cases "prepare_matches lib eid (ip_value_id ip) cs' ?w1")
    then obtain rest where r2: "r2 = Inr rest" "rows = ip # rest" "w2 = w'"
      using assms u mk Some by (cases r2) auto
    show ?thesis using f Some p r2 by auto
  qed
qed

text \<open>
  C1 (amended): every element of a list flattened with parent reference \<open>pid\<close> gets one
  row of its own, first among its rows, with a freshly drawn row id, with
  \<^verbatim>\<open>primary_value_id = pid\<close> and with \<^verbatim>\<open>is_primary = 1\<close> exactly when \<open>pid\<close> is
  \<^verbatim>\<open>None\<close>; the rows after it are those of its matches, flattened with the point
  identifier \<^verbatim>\<open>result["id"]\<close> of that element as their parent reference. The
  top-level results are flattened with \<^verbatim>\<open>None\<close> (see \<open>insertResults_priv\<close>).
\<close>

theorem prepare_matches_parent_reference:
  assumes "prepare_matches lib eid pid ms w = (Inr rows, w')"
  shows "\<exists>rowss. rows = concat rowss \<and> length rowss = length ms \<and>
     (\<forall>j < length ms. \<exists>ip rest wj wj'.
        rowss ! j = ip # rest \<and>
        prepare_result lib eid pid (ms ! j) wj = (Inr (ip # rest), wj') \<and>
        ip_id ip = uuid4_stream wj (uuid4_drawn wj) \<and>
        ip_primary_value_id ip = pid \<and>
        ip_is_primary ip = (if pid = PNone then 1 else 0) \<and>
        (case ms ! j of MatchPoint result cs \<Rightarrow>
           getitem result ''id'' = Inr (ip_value_id ip) \<and>
           (case cs of
              None \<Rightarrow> rest = []
            | Some cs' \<Rightarrow>
                \<exists>w1. prepare_matches lib eid (ip_value_id ip) cs' w1 = (Inr rest, wj'))))"
  using assms
proof (induction ms arbitrary: w rows w')
  case Nil
  then show ?case by simp
next
  case (Cons m ms)
  obtain r1 w1 where p1: "prepare_result lib eid pid m w = (r1, w1)"
    by (cases "prepare_result lib eid pid m w")
  obtain r2 w2 where p2: "prepare_matches lib eid pid ms w1 = (r2, w2)"
    by (cases "prepare_matches lib eid pid ms w1")
  from Cons.prems p1 p2 obtain rows1 others where
    r: "r1 = Inr rows1" "r2 = Inr others" "rows = rows1 @ others" "w2 = w'"
    by (cases r1; cases r2) auto
  obtain result cs where m: "m = MatchPoint result cs" by (cases m)
  from prepare_result_head [OF p1 [unfolded m r(1)]]
  obtain ip rest where h: "rows1 = ip # rest" "ip_id ip = uuid4_stream w (uuid4_drawn w)"
    "ip_primary_value_id ip = pid" "ip_is_primary ip = (if pid = PNone then 1 else 0)"
    "getitem result ''id'' = Inr (ip_value_id ip)"
    "(case cs of None \<Rightarrow> rest = []
      | Some cs' \<Rightarrow> \<exists>w1'. prepare_matches lib eid (ip_value_id ip) cs' w1' = (Inr rest, w1))"
    by blast
  from Cons.IH [OF p2 [unfolded r(2)]] obtain rowss where
    t: "others = concat rowss" "length rowss = length ms"
    "\<forall>j < length ms. \<exists>ip rest wj wj'.
        rowss ! j = ip # rest \<and>
        prepare_result lib eid pid (ms ! j) wj = (Inr (ip # rest), wj') \<and>
        ip_id ip = uuid4_stream wj (uuid4_drawn wj) \<and>
        ip_primary_value_id ip = pid \<and>
        ip_is_primary ip = (if pid = PNone then 1 else 0) \<and>
        (case ms ! j of MatchPoint result cs \<Rightarrow>
           getitem result ''id'' = Inr (ip_value_id ip) \<and>
           (case cs of
              None \<Rightarrow> rest = []
            | Some cs' \<Rightarrow>
                \<exists>w1. prepare_matches lib eid (ip_value_id ip) cs' w1 = (Inr rest, wj')))"
    by blast
  have first: "\<exists>ip rest wj wj'.
        (rows1 # rowss) ! 0 = ip # rest \<and>
        prepare_result lib eid pid ((m # ms) ! 0) wj = (Inr (ip # rest), wj') \<and>
        ip_id ip = uuid4_stream wj (uuid4_drawn wj) \<and>
        ip_primary_value_id ip = pid \<and>
        ip_is_primary ip = (if pid = PNone then 1 else 0) \<and>
        (case (m # ms) ! 0 of MatchPoint result cs \<Rightarrow>
           getitem result ''id'' = Inr (ip_value_id ip) \<and>
           (case cs of
              None \<Rightarrow> rest = []
            | Some cs' \<Rightarrow>
                \<exists>w1. prepare_matches lib eid (ip_value_id ip) cs' w1 = (Inr rest, wj')))"
    using h p1 r(1) m by (intro exI [of _ ip] exI [of _ rest] exI [of _ w] exI [of _ w1]) simp
  show ?case
  proof (intro exI [of _ "rows1 # rowss"] conjI allI impI)
    show "rows = concat (rows1 # rowss)" using r t by simp
    show "length (rows1 # rowss) = length (m # ms)" using t by simp
    fix j assume j: "j < length (m # ms)"
    show "\<exists>ip rest wj wj'.
        (rows1 # rowss) ! j = ip # rest \<and>
        prepare_result lib eid pid ((m # ms) ! j) wj = (Inr (ip # rest), wj') \<and>
        ip_id ip = uuid4_stream wj (uuid4_drawn wj) \<and>
        ip_primary_value_id ip = pid \<and>
        ip_is_primary ip = (if pid = PNone then 1 else 0) \<and>
        (case (m # ms) ! j of MatchPoint result cs \<Rightarrow>
           getitem result ''id'' = Inr (ip_value_id ip) \<and>
           (case cs of
              None \<Rightarrow> rest = []
            | Some cs' \<Rightarrow>
                \<exists>w1. prepare_matches lib eid (ip_value_id ip) cs' w1 = (Inr rest, wj')))"
    proof (cases j)
      case 0
      then show ?thesis using first by simp
    next
      case (Suc j')
      then have "j' < length ms" using j by simp
      then show ?thesis using t(3) Suc by simp
    qed
  qed
qed

theorem prepare_matches_parent_reference_witness:
  "prepare_matches sample_lib 7 PNone sample_forest (sample_world (\<lambda>i. True)) =
     (Inr sample_rows, sample_world (\<lambda>i. True)\<lparr>uuid4_drawn := 3\<rparr>) \<and>
   (\<exists>rowss. sample_rows = concat rowss \<and> length rowss = 1 \<and>
      ip_primary_value_id (hd (rowss ! 0)) = PNone \<and> ip_is_primary (hd (rowss ! 0)) = 1)"
proof -
  have p: "prepare_matches sample_lib 7 PNone sample_forest (sample_world (\<lambda>i. True)) =
     (Inr sample_rows, sample_world (\<lambda>i. True)\<lparr>uuid4_drawn := 3\<rparr>)"
    by (simp add: sample_rows_def sample_forest_def sample_point_def sample_lib_def
      sample_world_def make_insert_params_def uuid4_def getitem_def getitem_or_None_def
      lib_call_def)
  have l: "length sample_forest = 1" by (simp add: sample_forest_def)
  from prepare_matches_parent_reference [OF p] l
  obtain rowss where "sample_rows = concat rowss" "length rowss = 1"
    "\<exists>ip rest. rowss ! 0 = ip # rest \<and> ip_primary_value_id ip = PNone \<and> ip_is_primary ip = 1"
    by auto
  then show ?thesis using p by auto
qed

section \<open>The claims about the batch writer\<close>

text \<open>
  C5: a write pass returns \<^verbatim>\<open>True\<close> exactly when the future of every row of the
  sequence returns without raising: the flag is the conjunction of all row outcomes, over
  all chunks, and every row is sent once, in order. This holds for every positive chunk
  size; the chunks together are the row sequence, so that a chunk without failure does
  not decide the pass.
\<close>

theorem insert_result_batches_flag:
  "insert_result_batches rows w =
     ((\<forall>i < length rows. future_result w (length (log w) + i)),
      w\<lparr>log := log w @ map InsertData rows\<rparr>)
   \<and> (0 < n \<longrightarrow>
        write_batches (query_batches n rows) True w = insert_result_batches rows w \<and>
        concat (query_batches n rows) = rows)"
proof -
  have pass: "insert_result_batches rows w =
     ((\<forall>i < length rows. future_result w (length (log w) + i)),
      w\<lparr>log := log w @ map InsertData rows\<rparr>)"
    unfolding future_result_def by (rule insert_result_batches_eq)
  have chunks: "concat (query_batches n rows) = rows" if "0 < n"
    using that by (rule concat_query_batches)
  then have "write_batches (query_batches n rows) True w = insert_result_batches rows w"
    if "0 < n"
    using that by (simp add: write_batches_eq insert_result_batches_eq)
  then show ?thesis using pass chunks by simp
qed

theorem insert_result_batches_flag_witness:
  "fst (insert_result_batches sample_rows (sample_world (\<lambda>i. True))) \<and>
   \<not> fst (insert_result_batches sample_rows (sample_world (\<lambda>i. i \<noteq> 2))) \<and>
   query_batches 2 sample_rows = [take 2 sample_rows, drop 2 sample_rows] \<and>
   fst (write_batches [take 2 sample_rows] True (sample_world (\<lambda>i. i \<noteq> 2))) \<and>
   \<not> fst (write_batches (query_batches 2 sample_rows) True (sample_world (\<lambda>i. i \<noteq> 2)))"
proof -
  have l: "length sample_rows = 3"
    using sample_flatten(2) by (metis length_map length_Cons list.size(3) numeral_3_eq_3)
  have q: "query_batches 2 sample_rows = [take 2 sample_rows, drop 2 sample_rows]"
    by (simp add: query_batches_def l upt_conv_Cons)
  have t: "length (take 2 sample_rows) = 2" using l by simp
  have a: "fst (insert_result_batches sample_rows (sample_world (\<lambda>i. True)))"
    using insert_result_batches_flag [of sample_rows "sample_world (\<lambda>i. True)" 2]
    by (simp add: future_result_def sample_world_def)
  have b: "\<not> fst (insert_result_batches sample_rows (sample_world (\<lambda>i. i \<noteq> 2)))"
    using insert_result_batches_flag [of sample_rows "sample_world (\<lambda>i. i \<noteq> 2)" 2]
    by (simp add: future_result_def sample_world_def l)
  have c: "\<not> fst (write_batches (query_batches 2 sample_rows) True (sample_world (\<lambda>i. i \<noteq> 2)))"
    using insert_result_batches_flag [of sample_rows "sample_world (\<lambda>i. i \<noteq> 2)" 2] b
    by simp
  have d: "fst (write_batches [take 2 sample_rows] True (sample_world (\<lambda>i. i \<noteq> 2)))"
    by (simp add: write_batches_eq t sample_world_def)
  show ?thesis using a b c d q by simp
qed




text \<open>
  C4: the tuples are built once, before the loop: flattening draws one row id per tuple
  from \<^verbatim>\<open>uuid4\<close> and the loop draws none; every pass of the loop sends the same
  sequence of tuples, so that after the \<open>k\<close> passes made (between 1 and 5) the statements
  sent are \<open>k\<close> copies of that sequence; and running the write pass any number \<open>j\<close> of
  times over a row sequence sends \<open>j\<close> copies of it, so only rows with these row ids.
\<close>

theorem insertResults_rows_built_once:
  assumes "prepare_matches lib eid PNone results w = (Inr inserts, w1)"
  shows "w1 = w\<lparr>uuid4_drawn := uuid4_drawn w + length inserts\<rparr> \<and>
         map ip_id inserts = map (uuid4_stream w) [uuid4_drawn w ..< uuid4_drawn w + length inserts] \<and>
         (\<exists>k. 1 \<le> k \<and> k \<le> 5 \<and>
            snd (insertResults_priv lib eid results w) =
              w1\<lparr>log := log w @ concat (replicate k (map InsertData inserts)),
                 slept := slept w + 10 * (k - 1)\<rparr>) \<and>
         write_passes j inserts w0 =
            w0\<lparr>log := log w0 @ concat (replicate j (map InsertData inserts))\<rparr>"
proof -
  from prepare_world(2) [OF assms]
  have w1: "w1 = w\<lparr>uuid4_drawn := uuid4_drawn w + length inserts\<rparr>"
    and ids: "map ip_id inserts = map (uuid4_stream w) [uuid4_drawn w ..< uuid4_drawn w + length inserts]"
    by auto
  have lw: "log w1 = log w" "slept w1 = slept w"
    by (subst w1, simp)+
  have "\<exists>k. 1 \<le> k \<and> k \<le> 5 \<and>
            snd (insertResults_priv lib eid results w) =
              w1\<lparr>log := log w @ concat (replicate k (map InsertData inserts)),
                 slept := slept w + 10 * (k - 1)\<rparr>"
    using retry_loop_cases [of w1 inserts]
  proof
    assume "\<exists>k < 5. attempt_ok w1 inserts k \<and> (\<forall>j < k. \<not> attempt_ok w1 inserts j) \<and>
       retry_loop [0 ..< 5] inserts w1 = (Inr (), attempts_done (Suc k) k inserts w1)"
    then obtain k where "k < 5"
      "retry_loop [0 ..< 5] inserts w1 = (Inr (), attempts_done (Suc k) k inserts w1)" by blast
    then show ?thesis
      using assms lw by (intro exI [of _ "Suc k"]) (simp add: insertResults_priv_def attempts_done_def)
  next
    assume "(\<forall>k < 5. \<not> attempt_ok w1 inserts k) \<and>
     retry_loop [0 ..< 5] inserts w1 =
       (Inl (ResultInsertException ''Some result inserts failed''), attempts_done 5 4 inserts w1)"
    then show ?thesis
      using assms lw by (intro exI [of _ 5]) (simp add: insertResults_priv_def attempts_done_def)
  qed
  then show ?thesis using w1 ids write_passes_log by blast
qed

theorem insertResults_rows_built_once_witness:
  "map ip_id sample_rows = [100, 101, 102] \<and>
   (\<exists>k. 1 \<le> k \<and> k \<le> 5 \<and>
      log (snd (insertResults_priv sample_lib 7 sample_forest (sample_world (\<lambda>i. i \<noteq> 2)))) =
        concat (replicate k (map InsertData sample_rows))) \<and>
   log (write_passes 3 sample_rows (sample_world (\<lambda>i. True))) =
        concat (replicate 3 (map InsertData sample_rows))"
proof -
  from insertResults_rows_built_once [OF sample_flatten(1) [of "\<lambda>i. i \<noteq> 2"],
      of 3 "sample_world (\<lambda>i. True)"]
  obtain k where k: "1 \<le> k" "k \<le> 5"
    "snd (insertResults_priv sample_lib 7 sample_forest (sample_world (\<lambda>i. i \<noteq> 2))) =
       sample_world (\<lambda>i. i \<noteq> 2)\<lparr>uuid4_drawn := 3\<rparr>
          \<lparr>log := log (sample_world (\<lambda>i. i \<noteq> 2)) @ concat (replicate k (map InsertData sample_rows)),
           slept := slept (sample_world (\<lambda>i. i \<noteq> 2)) + 10 * (k - 1)\<rparr>"
    and p: "write_passes 3 sample_rows (sample_world (\<lambda>i. True)) =
       sample_world (\<lambda>i. True)\<lparr>log := log (sample_world (\<lambda>i. True)) @
          concat (replicate 3 (map InsertData sample_rows))\<rparr>"
    by blast
  have "log (snd (insertResults_priv sample_lib 7 sample_forest (sample_world (\<lambda>i. i \<noteq> 2)))) =
        concat (replicate k (map InsertData sample_rows))"
    by (subst k(3)) (simp add: sample_world_def)
  moreover have "log (write_passes 3 sample_rows (sample_world (\<lambda>i. True))) =
        concat (replicate 3 (map InsertData sample_rows))"
    by (subst p) (simp add: sample_world_def)
  ultimately show ?thesis using k(1,2) sample_flatten(2) by blast
qed

section \<open>The claim about the rows written before a write failure\<close>

lemma bindE_Inl_iff:
  "(bindE r f = Inl e) = (r = Inl e \<or> (\<exists>a. r = Inr a \<and> f a = Inl e))"
  by (cases r) (simp_all add: bindE_def)

lemma getitem_not_RIE: "getitem d k \<noteq> Inl (ResultInsertException m)"
  by (simp add: getitem_def split: option.splits)

lemma lib_call_not_RIE: "lib_call r \<noteq> Inl (ResultInsertException m)"
  by (simp add: lib_call_def split: sum.splits)

lemma str_items_not_RIE: "str_items vs \<noteq> Inl (ResultInsertException m)"
  by (induction vs rule: str_items.induct) (auto simp: bindE_Inl_iff)

lemma matchup_arg_not_RIE: "matchup_arg v \<noteq> Inl (ResultInsertException m)"
  by (cases v) (auto simp: matchup_arg_def bindE_Inl_iff str_items_not_RIE)

lemma make_insert_params_not_RIE:
  "make_insert_params lib rid eid pid result \<noteq> Inl (ResultInsertException m)"
  by (auto simp: make_insert_params_def bindE_Inl_iff getitem_not_RIE lib_call_not_RIE)

lemma prepare_not_RIE:
  "prepare_result lib eid pid mp w = (r, w') \<Longrightarrow> r \<noteq> Inl (ResultInsertException m)"
  "prepare_matches lib eid pid ms w = (r, w') \<Longrightarrow> r \<noteq> Inl (ResultInsertException m)"
proof (induction lib eid pid mp w and lib eid pid ms w arbitrary: r w' and r w'
    rule: prepare_result_prepare_matches.induct)
  case (1 lib eid pid result ms w)
  then show ?case
    using make_insert_params_not_RIE [of lib _ eid pid result m]
    by (auto simp: uuid4_def split: sum.splits option.splits prod.splits)
next
  case (2 lib eid pid w)
  then show ?case by auto
next
  case (3 lib eid pid mp rest w)
  then show ?case
    by (auto split: sum.splits prod.splits)
qed

lemma insertExecution_cases:
  "insertExecution given st ct ue w = (r, w1) \<Longrightarrow>
     (\<exists>eid. log w1 = log w @ [InsertExecution [PUuid eid, st, ct, ue]] \<and> ok w1 = ok w \<and>
        (r = Inr eid \<and> ok w (length (log w)) \<or> r = Inl DriverError))"
  by (auto simp: insertExecution_def execute_def uuid4_def split: option.splits if_splits)

lemma insertParams_priv_cases:
  "insertParams_priv lib eid params w = (r, w1) \<Longrightarrow>
     (r = Inr () \<and> ok w (length (log w)) \<and> ok w1 = ok w \<and>
        (\<exists>args. log w1 = log w @ [InsertParams (PUuid eid # args)])) \<or>
     (\<exists>e. r = Inl e \<and> (\<forall>m. e \<noteq> ResultInsertException m))"
  unfolding insertParams_priv_def
  by (auto simp: execute_def bindE_Inl_iff bindE_Inr_iff getitem_not_RIE lib_call_not_RIE
      matchup_arg_not_RIE split: sum.splits if_splits)

lemma insertStats_priv_cases:
  "insertStats_priv eid stats w = (r, w1) \<Longrightarrow>
     (r = Inr () \<and> ok w (length (log w)) \<and> ok w1 = ok w \<and>
        (\<exists>args. log w1 = log w @ [InsertStats (PUuid eid # args)])) \<or>
     (\<exists>e. r = Inl e \<and> (\<forall>m. e \<noteq> ResultInsertException m))"
  unfolding insertStats_priv_def
  by (auto simp: execute_def bindE_Inl_iff bindE_Inr_iff getitem_not_RIE
      split: sum.splits if_splits)

lemma insertResults_priv_RIE:
  assumes "insertResults_priv lib eid results w = (Inl (ResultInsertException m), w')"
  shows "\<exists>inserts. log w' = log w @ concat (replicate 5 (map InsertData inserts)) \<and>
           fst (prepare_matches lib eid PNone results w) = Inr inserts \<and> ok w' = ok w"
proof -
  obtain r1 w1 where p: "prepare_matches lib eid PNone results w = (r1, w1)"
    by (cases "prepare_matches lib eid PNone results w")
  have "r1 \<noteq> Inl (ResultInsertException m)" using prepare_not_RIE(2) [OF p] .
  then obtain inserts where r1: "r1 = Inr inserts"
    using assms p by (cases r1) (auto simp: insertResults_priv_def)
  from prepare_world(2) [OF p [unfolded r1]]
  have w1: "w1 = w\<lparr>uuid4_drawn := uuid4_drawn w + length inserts\<rparr>" by simp
  have lw: "log w1 = log w" "ok w1 = ok w" by (subst w1, simp)+
  have l: "retry_loop [0 ..< 5] inserts w1 = (Inl (ResultInsertException m), w')"
    using assms p r1 by (simp add: insertResults_priv_def)
  have "w' = attempts_done 5 4 inserts w1"
    using retry_loop_cases [of w1 inserts] l by auto
  then show ?thesis using lw p r1 by (simp add: attempts_done_def)
qed

text \<open>
  C9: when \<^verbatim>\<open>insertResults\<close> raises \<^verbatim>\<open>ResultInsertException\<close>, the statements
  sent since the call are the insert of the execution, the insert of its parameters and
  the insert of its statistics, each completed without raising, followed by nothing but
  the 5 passes of data inserts: the three rows were written before the error and no
  statement takes them back.
\<close>

theorem insertResults_not_atomic:
  assumes "insertResults lib results params stats st ct ue execution_id w =
             (Inl (ResultInsertException m), w')"
  shows "\<exists>eid pargs sargs inserts.
           log w' = log w @
             [InsertExecution [PUuid eid, st, ct, ue], InsertParams (PUuid eid # pargs),
              InsertStats (PUuid eid # sargs)] @
             concat (replicate 5 (map InsertData inserts)) \<and>
           ok w' = ok w \<and>
           future_result w' (length (log w)) \<and>
           future_result w' (length (log w) + 1) \<and>
           future_result w' (length (log w) + 2)"
proof -
  obtain given where g: "(case execution_id of
              None \<Rightarrow> Inr None
            | Some (Inl s) \<Rightarrow> bindE (lib_call (uuid_of_str lib s)) (\<lambda>u. Inr (Some u))
            | Some (Inr u) \<Rightarrow> Inr (Some u)) = Inr given"
    using assms lib_call_not_RIE
    by (cases "(case execution_id of
              None \<Rightarrow> Inr None
            | Some (Inl s) \<Rightarrow> bindE (lib_call (uuid_of_str lib s)) (\<lambda>u. Inr (Some u))
            | Some (Inr u) \<Rightarrow> Inr (Some u))")
       (auto simp: insertResults_def bindE_Inl_iff split: option.splits sum.splits)
  obtain r1 w1 where e1: "insertExecution given st ct ue w = (r1, w1)"
    by (cases "insertExecution given st ct ue w")
  from insertExecution_cases [OF e1] assms g e1
  obtain eid where 1: "r1 = Inr eid" "log w1 = log w @ [InsertExecution [PUuid eid, st, ct, ue]]"
    "ok w1 = ok w" "ok w (length (log w))"
    by (auto simp: insertResults_def)
  obtain r2 w2 where e2: "insertParams_priv lib eid params w1 = (r2, w2)"
    by (cases "insertParams_priv lib eid params w1")
  from insertParams_priv_cases [OF e2] assms g e1 1 e2
  obtain pargs where 2: "r2 = Inr ()" "log w2 = log w1 @ [InsertParams (PUuid eid # pargs)]"
    "ok w2 = ok w1" "ok w1 (length (log w1))"
    by (auto simp: insertResults_def)
  obtain r3 w3 where e3: "insertStats_priv eid stats w2 = (r3, w3)"
    by (cases "insertStats_priv eid stats w2")
  from insertStats_priv_cases [OF e3] assms g e1 1 e2 2 e3
  obtain sargs where 3: "r3 = Inr ()" "log w3 = log w2 @ [InsertStats (PUuid eid # sargs)]"
    "ok w3 = ok w2" "ok w2 (length (log w2))"
    by (auto simp: insertResults_def)
  obtain r4 w4 where e4: "insertResults_priv lib eid results w3 = (r4, w4)"
    by (cases "insertResults_priv lib eid results w3")
  have "r4 = Inl (ResultInsertException m) \<and> w4 = w'"
    using assms g e1 1 e2 2 e3 3 e4 by (cases r4) (auto simp: insertResults_def)
  with insertResults_priv_RIE e4
  obtain inserts where 4: "log w' = log w3 @ concat (replicate 5 (map InsertData inserts))"
    "ok w' = ok w3" by blast
  show ?thesis
    using 1 2 3 4
    by (intro exI [of _ eid] exI [of _ pargs] exI [of _ sargs] exI [of _ inserts])
       (simp add: future_result_def)
qed

lemma sample_store_call_fails:
  "fst (sample_store_call (\<lambda>i. i < 3)) = Inl (ResultInsertException ''Some result inserts failed'')"
  by (auto simp add: sample_store_call_def insertResults_def insertExecution_def execute_def
      insertParams_priv_def insertStats_priv_def insertResults_priv_def
      sample_params_def sample_stats_def sample_forest_def sample_point_def sample_lib_def
      sample_world_def make_insert_params_def uuid4_def getitem_def getitem_or_None_def
      lib_call_def matchup_arg_def insert_result_batches_eq sleep_def upt_conv_Cons
      intro!: exI [of _ 0])

theorem insertResults_not_atomic_witness:
  "fst (sample_store_call (\<lambda>i. i < 3)) = Inl (ResultInsertException ''Some result inserts failed'') \<and>
   (\<exists>pargs sargs.
      take 3 (log (snd (sample_store_call (\<lambda>i. i < 3)))) =
        [InsertExecution [PUuid 7, PTime (DateTime 0 None), PTime (DateTime 9 None), PStr ''user''],
         InsertParams (PUuid 7 # pargs), InsertStats (PUuid 7 # sargs)]) \<and>
   future_result (snd (sample_store_call (\<lambda>i. i < 3))) 0 \<and>
   future_result (snd (sample_store_call (\<lambda>i. i < 3))) 1 \<and>
   future_result (snd (sample_store_call (\<lambda>i. i < 3))) 2"
proof -
  let ?c = "sample_store_call (\<lambda>i. i < 3)"
  have run: "insertResults sample_lib sample_forest sample_params sample_stats
       (PTime (DateTime 0 None)) (PTime (DateTime 9 None)) (PStr ''user'') (Some (Inr 7))
       (sample_world (\<lambda>i. i < 3)) =
     (Inl (ResultInsertException ''Some result inserts failed''), snd ?c)"
    using sample_store_call_fails by (simp add: sample_store_call_def prod_eq_iff)
  from insertResults_not_atomic [OF run]
  obtain eid pargs sargs inserts where
    l: "log (snd ?c) = log (sample_world (\<lambda>i. i < 3)) @
             [InsertExecution [PUuid eid, PTime (DateTime 0 None), PTime (DateTime 9 None), PStr ''user''],
              InsertParams (PUuid eid # pargs), InsertStats (PUuid eid # sargs)] @
             concat (replicate 5 (map InsertData inserts))"
    and f: "future_result (snd ?c) (length (log (sample_world (\<lambda>i. i < 3))))"
      "future_result (snd ?c) (length (log (sample_world (\<lambda>i. i < 3))) + 1)"
      "future_result (snd ?c) (length (log (sample_world (\<lambda>i. i < 3))) + 2)"
    by blast
  have e: "log (sample_world (\<lambda>i. i < 3)) = []" by (simp add: sample_world_def)
  have "hd (log (snd ?c)) =
      InsertExecution [PUuid 7, PTime (DateTime 0 None), PTime (DateTime 9 None), PStr ''user'']"
    by (simp add: sample_store_call_def insertResults_def insertExecution_def execute_def
      insertParams_priv_def insertStats_priv_def insertResults_priv_def
      sample_params_def sample_stats_def sample_forest_def sample_point_def sample_lib_def
      sample_world_def make_insert_params_def uuid4_def getitem_def getitem_or_None_def
      lib_call_def matchup_arg_def insert_result_batches_eq sleep_def upt_conv_Cons)
  then have "eid = 7" using l e by simp
  then show ?thesis using sample_store_call_fails l e f by (simp add: numeral_2_eq_2)
qed

section \<open>Properties of the reader\<close>

lemma map_of_setitem: "map_of (setitem k v d) k' = (if k' = k then Some v else map_of d k')"
  by (induction d) auto

lemma setitem_setitem: "setitem k v (setitem k u d) = setitem k v d"
  by (induction d) auto

lemma setitem_present:
  "distinct (map fst d) \<Longrightarrow> map_of d k = Some x \<Longrightarrow>
     setitem k v d = map (\<lambda>(k', x). (k', if k' = k then v else x)) d"
proof (induction d)
  case Nil
  then show ?case by simp
next
  case (Cons p d)
  show ?case
  proof (cases "fst p = k")
    case True
    then have "k \<notin> fst ` set d" using Cons.prems by auto
    then have "map (\<lambda>(k', x). (k', if k' = k then v else x)) d = d"
      by (induction d) auto
    then show ?thesis using True by (cases p) simp
  next
    case False
    then show ?thesis using Cons by (cases p) auto
  qed
qed

lemma append_match_eq:
  "matches_appendable d \<Longrightarrow>
     append_match entry d = Inr (setitem ''matches'' (PList (old_matches d @ [PDict entry])) d)"
  by (auto simp: append_match_def matches_appendable_def old_matches_def
      split: option.splits pyval.splits)

lemma with_matches_step:
  "with_matches ms (setitem ''matches'' (PList (old_matches d @ [x])) d) = with_matches (x # ms) d"
  by (simp add: with_matches_def old_matches_def map_of_setitem setitem_setitem)

lemma matches_appendable_step:
  "matches_appendable (setitem ''matches'' (PList ms) d)"
  by (simp add: matches_appendable_def map_of_setitem)

lemma enrich_eq_spec:
  assumes "distinct (map fst dataMap)"
    and "\<forall>row \<in> set rows. \<exists>entry. rowToDataEntry lib trim_data row = Inr entry"
    and "\<forall>d \<in> snd ` set dataMap. matches_appendable d"
  shows "enrichPrimaryDataWithMatches lib trim_data rows dataMap =
           Inr (enrich_spec lib trim_data rows dataMap)"
  using assms
proof (induction rows arbitrary: dataMap)
  case Nil
  then show ?case
    by (simp add: enrich_spec_def decoded_children_def with_matches_def case_prod_unfold)
next
  case (Cons row rows)
  obtain entry where e: "rowToDataEntry lib trim_data row = Inr entry"
    using Cons.prems(2) by auto
  let ?p = "row_primary_value_id row"
  show ?case
  proof (cases "map_of dataMap ?p")
    case None
    then have notin: "?p \<notin> fst ` set dataMap" by (simp add: map_of_eq_None_iff)
    have "enrich_spec lib trim_data (row # rows) dataMap = enrich_spec lib trim_data rows dataMap"
      unfolding enrich_spec_def
    proof (rule map_cong [OF refl])
      fix kd assume kd: "kd \<in> set dataMap"
      obtain k x where kx: "kd = (k, x)" by (cases kd)
      have "k \<noteq> ?p" using notin kd kx by force
      then show "(case kd of (k, d) \<Rightarrow>
                    (k, with_matches (decoded_children lib trim_data (row # rows) k) d)) =
                 (case kd of (k, d) \<Rightarrow>
                    (k, with_matches (decoded_children lib trim_data rows k) d))"
        using kx by (auto simp: decoded_children_def)
    qed
    then show ?thesis
      using None e Cons.IH [OF Cons.prems(1) _ Cons.prems(3)] Cons.prems(2) by simp
  next
    case (Some d)
    then have din: "(?p, d) \<in> set dataMap" by (rule map_of_SomeD)
    then have app: "matches_appendable d" using Cons.prems(3) by force
    let ?x = "PDict entry"
    let ?d' = "setitem ''matches'' (PList (old_matches d @ [?x])) d"
    let ?dm = "setitem ?p ?d' dataMap"
    have dm: "?dm = map (\<lambda>(k', x). (k', if k' = ?p then ?d' else x)) dataMap"
      by (rule setitem_present [OF Cons.prems(1) Some])
    have keys: "map fst ?dm = map fst dataMap"
      unfolding dm by (simp add: case_prod_unfold comp_def)
    have dist: "distinct (map fst ?dm)" using keys Cons.prems(1) by simp
    have apps: "\<forall>d \<in> snd ` set ?dm. matches_appendable d"
      unfolding dm using Cons.prems(3) by (auto simp: matches_appendable_step)
    have rest: "\<forall>row \<in> set rows. \<exists>entry. rowToDataEntry lib trim_data row = Inr entry"
      using Cons.prems(2) by simp
    have IH: "enrichPrimaryDataWithMatches lib trim_data rows ?dm =
                Inr (enrich_spec lib trim_data rows ?dm)"
      by (rule Cons.IH [OF dist rest apps])
    have same: "enrich_spec lib trim_data rows ?dm = enrich_spec lib trim_data (row # rows) dataMap"
      unfolding enrich_spec_def dm map_map
    proof (rule map_cong [OF refl])
      fix kd assume kd: "kd \<in> set dataMap"
      obtain k x where kx: "kd = (k, x)" by (cases kd)
      show "((\<lambda>(k, d). (k, with_matches (decoded_children lib trim_data rows k) d)) \<circ>
             (\<lambda>(k', x). (k', if k' = ?p then ?d' else x))) kd =
            (case kd of (k, d) \<Rightarrow> (k, with_matches (decoded_children lib trim_data (row # rows) k) d))"
      proof (cases "k = ?p")
        case True
        then have "x = d" using kd kx din Cons.prems(1)
          by (metis Some map_of_is_SomeI option.inject)
        then show ?thesis
          using True kx e by (simp add: with_matches_step decoded_children_def)
      next
        case False
        then show ?thesis using kx by (auto simp: decoded_children_def)
      qed
    qed
    show ?thesis
      using Some e append_match_eq [OF app, of entry] IH same by simp
  qed
qed

lemma enrich_spec_drops:
  "enrich_spec lib trim_data rows dataMap =
   enrich_spec lib trim_data (filter (\<lambda>row. row_primary_value_id row \<in> fst ` set dataMap) rows) dataMap"
  unfolding enrich_spec_def
proof (rule map_cong [OF refl])
  fix kd assume kd: "kd \<in> set dataMap"
  obtain k x where kx: "kd = (k, x)" by (cases kd)
  have "filter (\<lambda>row. row_primary_value_id row = k)
          (filter (\<lambda>row. row_primary_value_id row \<in> fst ` set dataMap) rows) =
        filter (\<lambda>row. row_primary_value_id row = k) rows"
    using kd kx by (auto intro!: filter_cong simp: image_iff) force
  then show "(case kd of (k, d) \<Rightarrow> (k, with_matches (decoded_children lib trim_data rows k) d)) =
        (case kd of (k, d) \<Rightarrow> (k, with_matches (decoded_children lib trim_data
           (filter (\<lambda>row. row_primary_value_id row \<in> fst ` set dataMap) rows) k) d))"
    using kx by (simp add: decoded_children_def)
qed

lemma old_matches_with_matches:
  "old_matches (with_matches ms d) = old_matches d @ ms"
  by (simp add: with_matches_def old_matches_def map_of_setitem)

lemma map_of_enrich_spec:
  "map_of dataMap k = Some d \<Longrightarrow>
     map_of (enrich_spec lib trim_data rows dataMap) k =
       Some (with_matches (decoded_children lib trim_data rows k) d)"
  unfolding enrich_spec_def by (induction dataMap) auto

lemma decoded_children_all:
  assumes "\<forall>row \<in> set rows. \<exists>entry. rowToDataEntry lib trim_data row = Inr entry"
  shows "map Inr (map (\<lambda>v. case v of PDict entry \<Rightarrow> entry | _ \<Rightarrow> [])
              (decoded_children lib trim_data rows k)) =
         map (rowToDataEntry lib trim_data) (filter (\<lambda>row. row_primary_value_id row = k) rows)"
  using assms
proof (induction rows)
  case Nil
  then show ?case by (simp add: decoded_children_def)
next
  case (Cons row rows)
  then obtain entry where e: "rowToDataEntry lib trim_data row = Inr entry" by auto
  have "map Inr (map (\<lambda>v. case v of PDict entry \<Rightarrow> entry | _ \<Rightarrow> [])
              (decoded_children lib trim_data rows k)) =
         map (rowToDataEntry lib trim_data) (filter (\<lambda>row. row_primary_value_id row = k) rows)"
    using Cons by simp
  then show ?case using e by (simp add: decoded_children_def)
qed

section \<open>The claims about the reader\<close>

text \<open>
  C3: when every row read decodes and the top-level mapping is a dictionary whose entries
  have no \<^verbatim>\<open>"matches"\<close> other than a list, the reconstruction returns the mapping
  with the same keys in the same order, in which each entry has, appended to its list of
  matches in read order, the decoded rows whose parent reference is its key, one per such
  row; the result is the same when the rows whose parent reference is no key of the
  mapping are removed from the input, so these rows appear nowhere in it.
\<close>

theorem enrich_attaches_found_drops_others:
  assumes "distinct (map fst dataMap)"
    and "\<forall>row \<in> set rows. \<exists>entry. rowToDataEntry lib trim_data row = Inr entry"
    and "\<forall>d \<in> snd ` set dataMap. matches_appendable d"
  shows "enrichPrimaryDataWithMatches lib trim_data rows dataMap =
           Inr (enrich_spec lib trim_data rows dataMap) \<and>
         enrichPrimaryDataWithMatches lib trim_data
           (filter (\<lambda>row. row_primary_value_id row \<in> fst ` set dataMap) rows) dataMap =
           Inr (enrich_spec lib trim_data rows dataMap) \<and>
         map fst (enrich_spec lib trim_data rows dataMap) = map fst dataMap \<and>
         (\<forall>k d. map_of dataMap k = Some d \<longrightarrow>
            (\<exists>d'. map_of (enrich_spec lib trim_data rows dataMap) k = Some d' \<and>
                  old_matches d' = old_matches d @ decoded_children lib trim_data rows k \<and>
                  map Inr (map (\<lambda>v. case v of PDict entry \<Rightarrow> entry | _ \<Rightarrow> [])
                         (decoded_children lib trim_data rows k)) =
                  map (rowToDataEntry lib trim_data)
                    (filter (\<lambda>row. row_primary_value_id row = k) rows)))"
proof (intro conjI allI impI)
  show "enrichPrimaryDataWithMatches lib trim_data rows dataMap =
           Inr (enrich_spec lib trim_data rows dataMap)"
    by (rule enrich_eq_spec [OF assms])
  have "\<forall>row \<in> set (filter (\<lambda>row. row_primary_value_id row \<in> fst ` set dataMap) rows).
          \<exists>entry. rowToDataEntry lib trim_data row = Inr entry"
    using assms(2) by simp
  from enrich_eq_spec [OF assms(1) this assms(3)]
  show "enrichPrimaryDataWithMatches lib trim_data
           (filter (\<lambda>row. row_primary_value_id row \<in> fst ` set dataMap) rows) dataMap =
           Inr (enrich_spec lib trim_data rows dataMap)"
    using enrich_spec_drops [of lib trim_data rows dataMap] by simp
  show "map fst (enrich_spec lib trim_data rows dataMap) = map fst dataMap"
    by (simp add: enrich_spec_def case_prod_unfold comp_def)
next
  fix k d assume "map_of dataMap k = Some d"
  then show "\<exists>d'. map_of (enrich_spec lib trim_data rows dataMap) k = Some d' \<and>
                  old_matches d' = old_matches d @ decoded_children lib trim_data rows k \<and>
                  map Inr (map (\<lambda>v. case v of PDict entry \<Rightarrow> entry | _ \<Rightarrow> [])
                         (decoded_children lib trim_data rows k)) =
                  map (rowToDataEntry lib trim_data)
                    (filter (\<lambda>row. row_primary_value_id row = k) rows)"
    using decoded_children_all [OF assms(2)]
    by (simp add: map_of_enrich_spec old_matches_with_matches)
qed

lemma sample_decode:
  "rowToDataEntry sample_lib True (sample_data_row name parent) =
     Inr [(''lon'', PFloat 0x4024000000000000), (''lat'', PFloat 0x4034000000000000),
          (''source'', PStr ''A''), (''time'', PTime (DateTime 0 (Some ''UTC''))),
          (if parent = None then ''primary'' else ''secondary'', PList [PInt 1])]"
  by (simp add: rowToDataEntry_def base_entry_def sample_data_row_def sample_lib_def
      lib_call_def sample_json_sst_def)

theorem enrich_attaches_found_drops_others_witness:
  "retrieveData sample_store sample_lib 7 True =
     Inr [[(''lon'', PFloat 0x4024000000000000), (''lat'', PFloat 0x4034000000000000),
           (''source'', PStr ''A''), (''time'', PTime (DateTime 0 (Some ''UTC''))),
           (''primary'', PList [PInt 1]),
           (''matches'', PList [PDict
              [(''lon'', PFloat 0x4024000000000000), (''lat'', PFloat 0x4034000000000000),
               (''source'', PStr ''A''), (''time'', PTime (DateTime 0 (Some ''UTC''))),
               (''secondary'', PList [PInt 1])]])]]"
proof -
  let ?P = "[(''lon'', PFloat 0x4024000000000000), (''lat'', PFloat 0x4034000000000000),
           (''source'', PStr ''A''), (''time'', PTime (DateTime 0 (Some ''UTC''))),
           (''primary'', PList [PInt 1])]"
  let ?dm = "[(Some ''P1'', ?P)]"
  let ?rows = "[sample_data_row ''M1'' (Some ''P1''), sample_data_row ''N1'' (Some ''M1'')]"
  have prim: "retrievePrimaryData sample_lib True [sample_data_row ''P1'' None] [] = Inr ?dm"
    by (simp add: sample_decode) (simp add: sample_data_row_def)
  have 1: "distinct (map fst ?dm)" by simp
  have 2: "\<forall>row \<in> set ?rows. \<exists>entry. rowToDataEntry sample_lib True row = Inr entry"
    by (simp add: sample_decode)
  have 3: "\<forall>d \<in> snd ` set ?dm. matches_appendable d"
    by (simp add: matches_appendable_def)
  have "enrichPrimaryDataWithMatches sample_lib True ?rows ?dm =
          Inr (enrich_spec sample_lib True ?rows ?dm)"
    using enrich_attaches_found_drops_others [OF 1 2 3] by simp
  moreover have "row_primary_value_id (sample_data_row ''M1'' (Some ''P1'')) = Some ''P1''"
    "row_primary_value_id (sample_data_row ''N1'' (Some ''M1'')) = Some ''M1''"
    by (simp_all add: sample_data_row_def)
  ultimately show ?thesis
    using prim
    by (simp add: retrieveData_def sample_store_def enrich_spec_def decoded_children_def
        with_matches_def old_matches_def sample_decode)
qed

lemma keys_setitem: "fst ` set (setitem k v d) = insert k (fst ` set d)"
  by (induction d) auto

lemma keys_legacy_values:
  "fst ` set (legacy_values lib kvs entry) = fst ` set entry \<union> fst ` set kvs"
  by (induction lib kvs entry rule: legacy_values.induct) (auto simp: keys_setitem)

lemma map_of_legacy_values:
  "map_of (legacy_values lib kvs entry) k =
     (case map_of (rev kvs) k of
        Some d \<Rightarrow> Some (PFloat (py_float lib d))
      | None \<Rightarrow> map_of entry k)"
  by (induction lib kvs entry rule: legacy_values.induct)
     (auto simp: map_of_setitem split: option.splits)

text \<open>
  C6, as stated, fails: decoded with trim, the row of \<^verbatim>\<open>P1\<close> has the key
  \<^verbatim>\<open>"primary"\<close> with its measurements beside the position, the source and the time.
\<close>

theorem trim_keeps_measurements:
  "rowToDataEntry sample_lib True (sample_data_row ''P1'' None) =
     Inr [(''lon'', PFloat 0x4024000000000000), (''lat'', PFloat 0x4034000000000000),
          (''source'', PStr ''A''), (''time'', PTime (DateTime 0 (Some ''UTC''))),
          (''primary'', PList [PInt 1])]"
  by (simp add: sample_decode)

text \<open>
  C6 (amended): for a row in the serialized-text shape, decoding with trim gives exactly
  \<^verbatim>\<open>lon\<close>, \<^verbatim>\<open>lat\<close> (the floats of the stored \<^verbatim>\<open>x\<close> and \<^verbatim>\<open>y\<close>),
  \<^verbatim>\<open>source\<close>, \<^verbatim>\<open>time\<close> and the decoded measurements under \<^verbatim>\<open>primary\<close> or
  \<^verbatim>\<open>secondary\<close>; decoding without trim gives the full field set, with the point label,
  and the same measurements. For a row in the legacy shape the keys of the entry are those
  fields together with the names of the measurements; each measurement name is mapped to
  the float of the value listed last for it, and every key that is not a measurement name
  has the value of its field.
\<close>

theorem rowToDataEntry_fields:
  "(row_measurement_values_json row = Some (Some js) \<and> json_loads lib js = Inr v \<longrightarrow>
      rowToDataEntry lib True row =
        Inr [(''lon'', PFloat (py_float lib (row_x row))),
             (''lat'', PFloat (py_float lib (row_y row))),
             (''source'', row_source_dataset row),
             (''time'', PTime (replace_tzinfo_UTC (row_measurement_time row))),
             (if row_is_primary row then ''primary'' else ''secondary'', v)] \<and>
      rowToDataEntry lib False row =
        Inr [(''platform'', row_platform row),
             (''device'', row_device row),
             (''lon'', PStr (py_str lib (row_x row))),
             (''lat'', PStr (py_str lib (row_y row))),
             (''point'', PStr (''Point('' @ format_3f lib (py_float lib (row_x row)) @ '' '' @
                               format_3f lib (py_float lib (row_y row)) @ '')'')),
             (''time'', PTime (replace_tzinfo_UTC (row_measurement_time row))),
             (''depth'', (case row_depth row of None \<Rightarrow> PNone | Some d \<Rightarrow> PFloat (py_float lib d))),
             (''fileurl'', (case row_file_url row of None \<Rightarrow> PNone | Some u \<Rightarrow> u)),
             (''id'', pystr_opt (row_value_id row)),
             (''source'', row_source_dataset row),
             (if row_is_primary row then ''primary'' else ''secondary'', v)]) \<and>
   (row_measurement_values_json row = None \<and> row_measurement_values row = Some (Some kvs) \<longrightarrow>
      (\<exists>entry. rowToDataEntry lib True row = Inr entry \<and>
         fst ` set entry = {''lon'', ''lat'', ''source'', ''time''} \<union> fst ` set kvs \<and>
         (\<forall>k d. map_of (rev kvs) k = Some d \<longrightarrow>
                map_of entry k = Some (PFloat (py_float lib d))) \<and>
         (\<forall>k. k \<notin> fst ` set kvs \<longrightarrow>
              map_of entry k =
                map_of [(''lon'', PFloat (py_float lib (row_x row))),
                        (''lat'', PFloat (py_float lib (row_y row))),
                        (''source'', row_source_dataset row),
                        (''time'', PTime (replace_tzinfo_UTC (row_measurement_time row)))] k)) \<and>
      (\<exists>entry. rowToDataEntry lib False row = Inr entry \<and>
         fst ` set entry =
           {''platform'', ''device'', ''lon'', ''lat'', ''point'', ''time'', ''depth'',
            ''fileurl'', ''id'', ''source''} \<union> fst ` set kvs \<and>
         (\<forall>k d. map_of (rev kvs) k = Some d \<longrightarrow>
                map_of entry k = Some (PFloat (py_float lib d))) \<and>
         (\<forall>k. k \<notin> fst ` set kvs \<longrightarrow>
              map_of entry k =
                map_of [(''platform'', row_platform row),
                        (''device'', row_device row),
                        (''lon'', PStr (py_str lib (row_x row))),
                        (''lat'', PStr (py_str lib (row_y row))),
                        (''point'', PStr (''Point('' @ format_3f lib (py_float lib (row_x row)) @
                                          '' '' @ format_3f lib (py_float lib (row_y row)) @ '')'')),
                        (''time'', PTime (replace_tzinfo_UTC (row_measurement_time row))),
                        (''depth'', (case row_depth row of None \<Rightarrow> PNone
                                     | Some d \<Rightarrow> PFloat (py_float lib d))),
                        (''fileurl'', (case row_file_url row of None \<Rightarrow> PNone | Some u \<Rightarrow> u)),
                        (''id'', pystr_opt (row_value_id row)),
                        (''source'', row_source_dataset row)] k)))"
proof (intro conjI impI)
  assume a: "row_measurement_values_json row = Some (Some js) \<and> json_loads lib js = Inr v"
  show "rowToDataEntry lib True row =
        Inr [(''lon'', PFloat (py_float lib (row_x row))),
             (''lat'', PFloat (py_float lib (row_y row))),
             (''source'', row_source_dataset row),
             (''time'', PTime (replace_tzinfo_UTC (row_measurement_time row))),
             (if row_is_primary row then ''primary'' else ''secondary'', v)]"
    using a by (simp add: rowToDataEntry_def base_entry_def lib_call_def)
  show "rowToDataEntry lib False row =
        Inr [(''platform'', row_platform row),
             (''device'', row_device row),
             (''lon'', PStr (py_str lib (row_x row))),
             (''lat'', PStr (py_str lib (row_y row))),
             (''point'', PStr (''Point('' @ format_3f lib (py_float lib (row_x row)) @ '' '' @
                               format_3f lib (py_float lib (row_y row)) @ '')'')),
             (''time'', PTime (replace_tzinfo_UTC (row_measurement_time row))),
             (''depth'', (case row_depth row of None \<Rightarrow> PNone | Some d \<Rightarrow> PFloat (py_float lib d))),
             (''fileurl'', (case row_file_url row of None \<Rightarrow> PNone | Some u \<Rightarrow> u)),
             (''id'', pystr_opt (row_value_id row)),
             (''source'', row_source_dataset row),
             (if row_is_primary row then ''primary'' else ''secondary'', v)]"
    using a by (simp add: rowToDataEntry_def base_entry_def lib_call_def)
next
  assume a: "row_measurement_values_json row = None \<and> row_measurement_values row = Some (Some kvs)"
  have e: "rowToDataEntry lib t row = Inr (legacy_values lib kvs (base_entry lib t row))" for t
    using a by (simp add: rowToDataEntry_def)
  have named: "map_of (legacy_values lib kvs b) k = Some (PFloat (py_float lib d))"
    if "map_of (rev kvs) k = Some d" for b k d
    using that by (simp add: map_of_legacy_values)
  have other: "map_of (legacy_values lib kvs b) k = map_of b k" if "k \<notin> fst ` set kvs" for b k
  proof -
    have "k \<notin> fst ` set (rev kvs)" using that by simp
    then have "map_of (rev kvs) k = None" by (simp add: map_of_eq_None_iff)
    then show ?thesis by (simp add: map_of_legacy_values)
  qed
  show "\<exists>entry. rowToDataEntry lib True row = Inr entry \<and>
         fst ` set entry = {''lon'', ''lat'', ''source'', ''time''} \<union> fst ` set kvs \<and>
         (\<forall>k d. map_of (rev kvs) k = Some d \<longrightarrow>
                map_of entry k = Some (PFloat (py_float lib d))) \<and>
         (\<forall>k. k \<notin> fst ` set kvs \<longrightarrow>
              map_of entry k =
                map_of [(''lon'', PFloat (py_float lib (row_x row))),
                        (''lat'', PFloat (py_float lib (row_y row))),
                        (''source'', row_source_dataset row),
                        (''time'', PTime (replace_tzinfo_UTC (row_measurement_time row)))] k)"
  proof (intro exI [of _ "legacy_values lib kvs (base_entry lib True row)"] conjI allI impI)
    show "rowToDataEntry lib True row = Inr (legacy_values lib kvs (base_entry lib True row))"
      by (rule e)
    show "fst ` set (legacy_values lib kvs (base_entry lib True row)) =
            {''lon'', ''lat'', ''source'', ''time''} \<union> fst ` set kvs"
      by (simp add: keys_legacy_values) (simp add: base_entry_def)
  next
    fix k d assume "map_of (rev kvs) k = Some d"
    then show "map_of (legacy_values lib kvs (base_entry lib True row)) k =
                 Some (PFloat (py_float lib d))"
      by (rule named)
  next
    fix k assume "k \<notin> fst ` set kvs"
    then have "map_of (legacy_values lib kvs (base_entry lib True row)) k =
                 map_of (base_entry lib True row) k"
      by (rule other)
    then show "map_of (legacy_values lib kvs (base_entry lib True row)) k =
                map_of [(''lon'', PFloat (py_float lib (row_x row))),
                        (''lat'', PFloat (py_float lib (row_y row))),
                        (''source'', row_source_dataset row),
                        (''time'', PTime (replace_tzinfo_UTC (row_measurement_time row)))] k"
      by (simp only: base_entry_def if_True)
  qed
  show "\<exists>entry. rowToDataEntry lib False row = Inr entry \<and>
         fst ` set entry =
           {''platform'', ''device'', ''lon'', ''lat'', ''point'', ''time'', ''depth'',
            ''fileurl'', ''id'', ''source''} \<union> fst ` set kvs \<and>
         (\<forall>k d. map_of (rev kvs) k = Some d \<longrightarrow>
                map_of entry k = Some (PFloat (py_float lib d))) \<and>
         (\<forall>k. k \<notin> fst ` set kvs \<longrightarrow>
              map_of entry k =
                map_of [(''platform'', row_platform row),
                        (''device'', row_device row),
                        (''lon'', PStr (py_str lib (row_x row))),
                        (''lat'', PStr (py_str lib (row_y row))),
                        (''point'', PStr (''Point('' @ format_3f lib (py_float lib (row_x row)) @
                                          '' '' @ format_3f lib (py_float lib (row_y row)) @ '')'')),
                        (''time'', PTime (replace_tzinfo_UTC (row_measurement_time row))),
                        (''depth'', (case row_depth row of None \<Rightarrow> PNone
                                     | Some d \<Rightarrow> PFloat (py_float lib d))),
                        (''fileurl'', (case row_file_url row of None \<Rightarrow> PNone | Some u \<Rightarrow> u)),
                        (''id'', pystr_opt (row_value_id row)),
                        (''source'', row_source_dataset row)] k)"
  proof (intro exI [of _ "legacy_values lib kvs (base_entry lib False row)"] conjI allI impI)
    show "rowToDataEntry lib False row = Inr (legacy_values lib kvs (base_entry lib False row))"
      by (rule e)
    show "fst ` set (legacy_values lib kvs (base_entry lib False row)) =
           {''platform'', ''device'', ''lon'', ''lat'', ''point'', ''time'', ''depth'',
            ''fileurl'', ''id'', ''source''} \<union> fst ` set kvs"
      by (simp add: keys_legacy_values) (simp add: base_entry_def)
  next
    fix k d assume "map_of (rev kvs) k = Some d"
    then show "map_of (legacy_values lib kvs (base_entry lib False row)) k =
                 Some (PFloat (py_float lib d))"
      by (rule named)
  next
    fix k assume "k \<notin> fst ` set kvs"
    then have "map_of (legacy_values lib kvs (base_entry lib False row)) k =
                 map_of (base_entry lib False row) k"
      by (rule other)
    then show "map_of (legacy_values lib kvs (base_entry lib False row)) k =
                map_of [(''platform'', row_platform row),
                        (''device'', row_device row),
                        (''lon'', PStr (py_str lib (row_x row))),
                        (''lat'', PStr (py_str lib (row_y row))),
                        (''point'', PStr (''Point('' @ format_3f lib (py_float lib (row_x row)) @
                                          '' '' @ format_3f lib (py_float lib (row_y row)) @ '')'')),
                        (''time'', PTime (replace_tzinfo_UTC (row_measurement_time row))),
                        (''depth'', (case row_depth row of None \<Rightarrow> PNone
                                     | Some d \<Rightarrow> PFloat (py_float lib d))),
                        (''fileurl'', (case row_file_url row of None \<Rightarrow> PNone | Some u \<Rightarrow> u)),
                        (''id'', pystr_opt (row_value_id row)),
                        (''source'', row_source_dataset row)] k"
      by (simp only: base_entry_def if_False)
  qed
qed

lemma sample_legacy_decode:
  "rowToDataEntry sample_lib True sample_legacy_row =
     Inr [(''lon'', PFloat 0x4024000000000000), (''lat'', PFloat 0x4034000000000000),
          (''source'', PStr ''A''), (''time'', PTime (DateTime 0 (Some ''UTC''))),
          (''sst'', PFloat 0x4024000000000000)]"
  by (simp add: rowToDataEntry_def base_entry_def sample_legacy_row_def sample_data_row_def
      sample_lib_def)

lemma sample_current_decode:
  "rowToDataEntry sample_lib True sample_current_row =
     Inr [(''lon'', PFloat 0x4024000000000000), (''lat'', PFloat 0x4034000000000000),
          (''source'', PStr ''A''), (''time'', PTime (DateTime 0 (Some ''UTC''))),
          (''primary'', PDict [(''sst'', PFloat 0x4024000000000000)])]"
  by (simp add: rowToDataEntry_def base_entry_def sample_current_row_def sample_data_row_def
      sample_lib_def lib_call_def sample_json_sst_def)

theorem rowToDataEntry_fields_witness:
  "rowToDataEntry sample_lib True sample_current_row =
     Inr [(''lon'', PFloat 0x4024000000000000), (''lat'', PFloat 0x4034000000000000),
          (''source'', PStr ''A''), (''time'', PTime (DateTime 0 (Some ''UTC''))),
          (''primary'', PDict [(''sst'', PFloat 0x4024000000000000)])] \<and>
   (\<exists>entry. rowToDataEntry sample_lib True sample_legacy_row = Inr entry \<and>
      fst ` set entry = {''lon'', ''lat'', ''source'', ''time''} \<union> {''sst''} \<and>
      map_of entry ''sst'' = Some (PFloat 0x4024000000000000) \<and>
      map_of entry ''lon'' = Some (PFloat 0x4024000000000000) \<and>
      map_of entry ''source'' = Some (PStr ''A''))"
proof -
  have c: "row_measurement_values_json sample_current_row = Some (Some sample_json_sst) \<and>
        json_loads sample_lib sample_json_sst = Inr (PDict [(''sst'', PFloat 0x4024000000000000)])"
    by (simp add: sample_current_row_def sample_lib_def sample_json_sst_def)
  have l: "row_measurement_values_json sample_legacy_row = None \<and>
        row_measurement_values sample_legacy_row = Some (Some [(''sst'', Decimal 100 (- 1))])"
    by (simp add: sample_legacy_row_def)
  have x: "row_x sample_current_row = Decimal 100 (- 1)" "row_y sample_current_row = Decimal 200 (- 1)"
    "row_source_dataset sample_current_row = PStr ''A''"
    "row_measurement_time sample_current_row = DateTime 0 None"
    "row_is_primary sample_current_row"
    "row_x sample_legacy_row = Decimal 100 (- 1)"
    "row_source_dataset sample_legacy_row = PStr ''A''"
    by (simp_all add: sample_current_row_def sample_legacy_row_def sample_data_row_def)
  have f: "py_float sample_lib (Decimal 100 (- 1)) = 0x4024000000000000"
    "py_float sample_lib (Decimal 200 (- 1)) = 0x4034000000000000"
    by (simp_all add: sample_lib_def)
  note text_shape = rowToDataEntry_fields [of sample_current_row sample_json_sst sample_lib
      "PDict [(''sst'', PFloat 0x4024000000000000)]", THEN conjunct1, THEN mp, OF c, THEN conjunct1]
  have 1: "rowToDataEntry sample_lib True sample_current_row =
     Inr [(''lon'', PFloat 0x4024000000000000), (''lat'', PFloat 0x4034000000000000),
          (''source'', PStr ''A''), (''time'', PTime (DateTime 0 (Some ''UTC''))),
          (''primary'', PDict [(''sst'', PFloat 0x4024000000000000)])]"
    using text_shape by (simp add: x f)
  note legacy_shape = rowToDataEntry_fields [of sample_legacy_row _ sample_lib _
      "[(''sst'', Decimal 100 (- 1))]", THEN conjunct2, THEN mp, OF l, THEN conjunct1]
  then obtain entry where e: "rowToDataEntry sample_lib True sample_legacy_row = Inr entry"
    and keys: "fst ` set entry =
      {''lon'', ''lat'', ''source'', ''time''} \<union> fst ` set [(''sst'', Decimal 100 (- 1))]"
    and named: "\<forall>k d. map_of (rev [(''sst'', Decimal 100 (- 1))]) k = Some d \<longrightarrow>
                map_of entry k = Some (PFloat (py_float sample_lib d))"
    and other: "\<forall>k. k \<notin> fst ` set [(''sst'', Decimal 100 (- 1))] \<longrightarrow>
              map_of entry k =
                map_of [(''lon'', PFloat (py_float sample_lib (row_x sample_legacy_row))),
                        (''lat'', PFloat (py_float sample_lib (row_y sample_legacy_row))),
                        (''source'', row_source_dataset sample_legacy_row),
                        (''time'', PTime (replace_tzinfo_UTC (row_measurement_time sample_legacy_row)))] k"
    by (elim exE conjE) (rule that)
  have k: "fst ` set entry = {''lon'', ''lat'', ''source'', ''time''} \<union> {''sst''}"
    by (subst keys) simp
  have "map_of (rev [(''sst'', Decimal 100 (- 1))]) ''sst'' = Some (Decimal 100 (- 1))"
    by simp
  then have s: "map_of entry ''sst'' = Some (PFloat (py_float sample_lib (Decimal 100 (- 1))))"
    by (rule named [rule_format])
  have "''lon'' \<notin> fst ` set [(''sst'', Decimal 100 (- 1))]" by simp
  then have "map_of entry ''lon'' =
      map_of [(''lon'', PFloat (py_float sample_lib (row_x sample_legacy_row))),
              (''lat'', PFloat (py_float sample_lib (row_y sample_legacy_row))),
              (''source'', row_source_dataset sample_legacy_row),
              (''time'', PTime (replace_tzinfo_UTC (row_measurement_time sample_legacy_row)))] ''lon''"
    by (rule other [rule_format])
  then have lon: "map_of entry ''lon'' = Some (PFloat (py_float sample_lib (row_x sample_legacy_row)))"
    by simp
  have "''source'' \<notin> fst ` set [(''sst'', Decimal 100 (- 1))]" by simp
  then have "map_of entry ''source'' =
      map_of [(''lon'', PFloat (py_float sample_lib (row_x sample_legacy_row))),
              (''lat'', PFloat (py_float sample_lib (row_y sample_legacy_row))),
              (''source'', row_source_dataset sample_legacy_row),
              (''time'', PTime (replace_tzinfo_UTC (row_measurement_time sample_legacy_row)))] ''source''"
    by (rule other [rule_format])
  then have src: "map_of entry ''source'' = Some (row_source_dataset sample_legacy_row)"
    by simp
  show ?thesis
    using 1 e k s lon src by (simp add: x f)
qed

text \<open>
  C7, as stated, fails: the legacy row with the measurement \<^verbatim>\<open>sst = 10.0\<close> decodes to
  an entry with the key \<^verbatim>\<open>"sst"\<close>, the row with the same columns and the text
  \<^verbatim>\<open>{"sst": 10.0}\<close> to an entry with the key \<^verbatim>\<open>"primary"\<close> holding the dictionary.
\<close>

theorem legacy_and_current_entries_differ:
  "rowToDataEntry sample_lib True sample_legacy_row =
     Inr [(''lon'', PFloat 0x4024000000000000), (''lat'', PFloat 0x4034000000000000),
          (''source'', PStr ''A''), (''time'', PTime (DateTime 0 (Some ''UTC''))),
          (''sst'', PFloat 0x4024000000000000)] \<and>
   rowToDataEntry sample_lib True sample_current_row =
     Inr [(''lon'', PFloat 0x4024000000000000), (''lat'', PFloat 0x4034000000000000),
          (''source'', PStr ''A''), (''time'', PTime (DateTime 0 (Some ''UTC''))),
          (''primary'', PDict [(''sst'', PFloat 0x4024000000000000)])] \<and>
   rowToDataEntry sample_lib True sample_legacy_row \<noteq>
     rowToDataEntry sample_lib True sample_current_row"
  by (simp add: sample_legacy_decode sample_current_decode)

text \<open>
  C7 (amended): a row that has the serialized-text attribute is decoded from it alone,
  whatever its legacy column holds (a null text raises \<^verbatim>\<open>TypeError\<close>, with no
  fallback), and the decoded value is stored under the one key \<^verbatim>\<open>primary\<close> or
  \<^verbatim>\<open>secondary\<close>; only a row without that attribute is decoded from the legacy column,
  and then each measurement name is a key of the entry itself, mapped to the float of its
  value.
\<close>

theorem rowToDataEntry_payload_shapes:
  "(row_measurement_values_json row \<noteq> None \<longrightarrow>
      rowToDataEntry lib trim_data (row\<lparr>row_measurement_values := mv\<rparr>) =
        rowToDataEntry lib trim_data row) \<and>
   (row_measurement_values_json row = Some None \<longrightarrow>
      rowToDataEntry lib trim_data row = Inl (Builtin TypeError)) \<and>
   (row_measurement_values_json row = Some (Some js) \<and> json_loads lib js = Inr v \<longrightarrow>
      (\<exists>entry. rowToDataEntry lib trim_data row = Inr entry \<and>
         (\<forall>k. map_of entry k =
            (if k = (if row_is_primary row then ''primary'' else ''secondary'') then Some v
             else map_of (base_entry lib trim_data row) k)))) \<and>
   (row_measurement_values_json row = None \<and> row_measurement_values row = Some (Some kvs) \<longrightarrow>
      (\<exists>entry. rowToDataEntry lib trim_data row = Inr entry \<and>
         (\<forall>k. map_of entry k =
            (case map_of (rev kvs) k of
               Some d \<Rightarrow> Some (PFloat (py_float lib d))
             | None \<Rightarrow> map_of (base_entry lib trim_data row) k))))"
proof (intro conjI impI)
  assume "row_measurement_values_json row \<noteq> None"
  then show "rowToDataEntry lib trim_data (row\<lparr>row_measurement_values := mv\<rparr>) =
        rowToDataEntry lib trim_data row"
    by (auto simp: rowToDataEntry_def base_entry_def split: option.splits)
next
  assume "row_measurement_values_json row = Some None"
  then show "rowToDataEntry lib trim_data row = Inl (Builtin TypeError)"
    by (simp add: rowToDataEntry_def)
next
  assume "row_measurement_values_json row = Some (Some js) \<and> json_loads lib js = Inr v"
  then show "\<exists>entry. rowToDataEntry lib trim_data row = Inr entry \<and>
         (\<forall>k. map_of entry k =
            (if k = (if row_is_primary row then ''primary'' else ''secondary'') then Some v
             else map_of (base_entry lib trim_data row) k))"
    by (simp add: rowToDataEntry_def lib_call_def map_of_setitem)
next
  assume "row_measurement_values_json row = None \<and> row_measurement_values row = Some (Some kvs)"
  then show "\<exists>entry. rowToDataEntry lib trim_data row = Inr entry \<and>
         (\<forall>k. map_of entry k =
            (case map_of (rev kvs) k of
               Some d \<Rightarrow> Some (PFloat (py_float lib d))
             | None \<Rightarrow> map_of (base_entry lib trim_data row) k))"
    by (simp add: rowToDataEntry_def map_of_legacy_values)
qed

theorem rowToDataEntry_payload_shapes_witness:
  "(\<exists>entry. rowToDataEntry sample_lib True sample_current_row = Inr entry \<and>
      map_of entry ''primary'' = Some (PDict [(''sst'', PFloat 0x4024000000000000)]) \<and>
      map_of entry ''sst'' = None) \<and>
   (\<exists>entry. rowToDataEntry sample_lib True sample_legacy_row = Inr entry \<and>
      map_of entry ''sst'' = Some (PFloat 0x4024000000000000) \<and>
      map_of entry ''primary'' = None) \<and>
   rowToDataEntry sample_lib True
     (sample_current_row\<lparr>row_measurement_values := Some (Some [(''sst'', Decimal 200 (- 1))])\<rparr>) =
     rowToDataEntry sample_lib True sample_current_row"
proof -
  have c: "row_measurement_values_json sample_current_row = Some (Some sample_json_sst) \<and>
        json_loads sample_lib sample_json_sst = Inr (PDict [(''sst'', PFloat 0x4024000000000000)])"
    by (simp add: sample_current_row_def sample_lib_def sample_json_sst_def)
  have l: "row_measurement_values_json sample_legacy_row = None \<and>
        row_measurement_values sample_legacy_row = Some (Some [(''sst'', Decimal 100 (- 1))])"
    by (simp add: sample_legacy_row_def)
  have p: "row_is_primary sample_current_row"
    by (simp add: sample_current_row_def sample_data_row_def)
  have b: "map_of (base_entry sample_lib True sample_current_row) ''sst'' = None"
      "map_of (base_entry sample_lib True sample_legacy_row) ''primary'' = None"
    by (simp_all add: base_entry_def)
  have f: "py_float sample_lib (Decimal 100 (- 1)) = 0x4024000000000000"
    by (simp add: sample_lib_def)
  from rowToDataEntry_payload_shapes [of sample_current_row sample_lib True _ sample_json_sst
      "PDict [(''sst'', PFloat 0x4024000000000000)]"] c
  obtain e1 where 1: "rowToDataEntry sample_lib True sample_current_row = Inr e1"
    "\<forall>k. map_of e1 k =
            (if k = (if row_is_primary sample_current_row then ''primary'' else ''secondary'')
             then Some (PDict [(''sst'', PFloat 0x4024000000000000)])
             else map_of (base_entry sample_lib True sample_current_row) k)"
    by blast
  from rowToDataEntry_payload_shapes [of sample_legacy_row sample_lib True _ _ _
      "[(''sst'', Decimal 100 (- 1))]"] l
  obtain e2 where 2: "rowToDataEntry sample_lib True sample_legacy_row = Inr e2"
    "\<forall>k. map_of e2 k =
            (case map_of (rev [(''sst'', Decimal 100 (- 1))]) k of
               Some d \<Rightarrow> Some (PFloat (py_float sample_lib d))
             | None \<Rightarrow> map_of (base_entry sample_lib True sample_legacy_row) k)"
    by blast
  have 3: "rowToDataEntry sample_lib True
     (sample_current_row\<lparr>row_measurement_values := Some (Some [(''sst'', Decimal 200 (- 1))])\<rparr>) =
     rowToDataEntry sample_lib True sample_current_row"
    using rowToDataEntry_payload_shapes [of sample_current_row sample_lib True] c by simp
  have "map_of e1 ''primary'' = Some (PDict [(''sst'', PFloat 0x4024000000000000)])"
    "map_of e1 ''sst'' = None"
    using 1(2) p b(1) by simp_all
  moreover have "map_of e2 ''sst'' = Some (PFloat 0x4024000000000000)"
    "map_of e2 ''primary'' = None"
    using 2(2) f b(2) by simp_all
  ultimately show ?thesis using 1(1) 2(1) 3 by simp
qed

text \<open>
  C8: when the lookup of the parameters or the lookup of the statistics returns no row,
  \<^verbatim>\<open>retrieveResults\<close> raises the exception \<^verbatim>\<open>Execution not found\<close>, whatever
  rows of data the store holds for the id, and that exception is not
  \<^verbatim>\<open>ResultInsertException\<close>.
\<close>

theorem retrieveResults_not_found:
  assumes "select_params db eid = [] \<or> select_stats db eid = []"
  shows "retrieveResults db lib (Inr eid) trim_data =
           Inl (PyException ''Execution not found with id '' eid) \<and>
         retrieveResults (db\<lparr>select_data := rows\<rparr>) lib (Inr eid) trim_data =
           Inl (PyException ''Execution not found with id '' eid) \<and>
         (uuid_of_str lib s = Inr eid \<longrightarrow>
            retrieveResults db lib (Inl s) trim_data =
              Inl (PyException ''Execution not found with id '' eid)) \<and>
         (\<forall>m. retrieveResults db lib (Inr eid) trim_data \<noteq> Inl (ResultInsertException m))"
  using assms
  by (auto simp: retrieveResults_def retrieveParams_def retrieveStats_def lib_call_def Let_def
      split: list.splits)

theorem retrieveResults_not_found_witness:
  "select_data sample_store 7 True \<noteq> [] \<and>
   retrieveResults sample_store sample_lib (Inr 7) True =
     Inl (PyException ''Execution not found with id '' 7) \<and>
   retrieveResults sample_store sample_lib (Inr 7) False =
     Inl (PyException ''Execution not found with id '' 7)"
proof -
  have "select_params sample_store 7 = [] \<or> select_stats sample_store 7 = []"
    by (simp add: sample_store_def)
  from retrieveResults_not_found [OF this]
  show ?thesis by (simp add: sample_store_def)
qed

text \<open>
  C10, as stated, fails: a legacy row with a measurement named \<^verbatim>\<open>lon\<close> decodes,
  without trim, to an entry whose \<^verbatim>\<open>lon\<close> is the float of that measurement (20.0),
  not the string of the stored coordinate (\<^verbatim>\<open>"10.0"\<close>).
\<close>

theorem legacy_lon_measurement_replaces_position:
  "rowToDataEntry sample_lib False sample_lon_row =
     Inr [(''platform'', PNone), (''device'', PNone),
          (''lon'', PFloat 0x4034000000000000), (''lat'', PStr ''20.0''),
          (''point'', PStr ''Point(10.000 20.000)''),
          (''time'', PTime (DateTime 0 (Some ''UTC''))), (''depth'', PNone),
          (''fileurl'', PNone), (''id'', PStr ''P1''), (''source'', PStr ''A'')] \<and>
   py_str sample_lib (row_x sample_lon_row) = ''10.0''"
  by (simp add: rowToDataEntry_def base_entry_def sample_lon_row_def sample_data_row_def
      sample_lib_def pystr_opt_def)

text \<open>
  C10 (amended): for every row that decodes and that is in the serialized-text shape, or
  in the legacy shape with no measurement named \<^verbatim>\<open>lon\<close> or \<^verbatim>\<open>lat\<close>, the entry
  has \<^verbatim>\<open>lon\<close> and \<^verbatim>\<open>lat\<close> as the floats of the stored \<^verbatim>\<open>x\<close> and \<^verbatim>\<open>y\<close>
  with trim, and as their strings without trim.
\<close>

theorem position_fields_by_trim:
  assumes "rowToDataEntry lib trim_data row = Inr entry"
    and "row_measurement_values_json row = None \<longrightarrow>
           (\<forall>kvs. row_measurement_values row = Some (Some kvs) \<longrightarrow>
                  ''lon'' \<notin> fst ` set kvs \<and> ''lat'' \<notin> fst ` set kvs)"
  shows "map_of entry ''lon'' =
           Some (if trim_data then PFloat (py_float lib (row_x row))
                 else PStr (py_str lib (row_x row))) \<and>
         map_of entry ''lat'' =
           Some (if trim_data then PFloat (py_float lib (row_y row))
                 else PStr (py_str lib (row_y row)))"
proof (cases "row_measurement_values_json row")
  case None
  then obtain kvs where kvs: "row_measurement_values row = Some (Some kvs)"
    and e: "entry = legacy_values lib kvs (base_entry lib trim_data row)"
    using assms(1) by (auto simp: rowToDataEntry_def split: option.splits)
  have "''lon'' \<notin> fst ` set (rev kvs)" "''lat'' \<notin> fst ` set (rev kvs)"
    using assms(2) None kvs by auto
  then have "map_of (rev kvs) ''lon'' = None" "map_of (rev kvs) ''lat'' = None"
    by (simp_all add: map_of_eq_None_iff)
  then show ?thesis
    unfolding e by (simp add: map_of_legacy_values base_entry_def)
next
  case (Some j)
  then obtain js v where "j = Some js" "json_loads lib js = Inr v"
    and e: "entry = setitem (if row_is_primary row then ''primary'' else ''secondary'') v
                      (base_entry lib trim_data row)"
    using assms(1)
    by (auto simp: rowToDataEntry_def lib_call_def bindE_Inr_iff split: option.splits sum.splits)
  show ?thesis
    unfolding e by (simp add: map_of_setitem base_entry_def)
qed

theorem position_fields_by_trim_witness:
  "(\<exists>entry. rowToDataEntry sample_lib True (sample_data_row ''P1'' None) = Inr entry \<and>
      map_of entry ''lon'' = Some (PFloat 0x4024000000000000) \<and>
      map_of entry ''lat'' = Some (PFloat 0x4034000000000000)) \<and>
   (\<exists>entry. rowToDataEntry sample_lib False sample_legacy_row = Inr entry \<and>
      map_of entry ''lon'' = Some (PStr ''10.0'') \<and>
      map_of entry ''lat'' = Some (PStr ''20.0''))"
proof -
  have l: "rowToDataEntry sample_lib False sample_legacy_row =
             Inr (legacy_values sample_lib [(''sst'', Decimal 100 (- 1))]
                    (base_entry sample_lib False sample_legacy_row))"
    by (simp add: rowToDataEntry_def sample_legacy_row_def)
  have h: "row_measurement_values_json sample_legacy_row = None \<longrightarrow>
           (\<forall>kvs. row_measurement_values sample_legacy_row = Some (Some kvs) \<longrightarrow>
                  ''lon'' \<notin> fst ` set kvs \<and> ''lat'' \<notin> fst ` set kvs)"
    by (simp add: sample_legacy_row_def)
  have c: "row_measurement_values_json (sample_data_row ''P1'' None) = None \<longrightarrow>
           (\<forall>kvs. row_measurement_values (sample_data_row ''P1'' None) = Some (Some kvs) \<longrightarrow>
                  ''lon'' \<notin> fst ` set kvs \<and> ''lat'' \<notin> fst ` set kvs)"
    by (simp add: sample_data_row_def)
  have x: "row_x sample_legacy_row = Decimal 100 (- 1)" "row_y sample_legacy_row = Decimal 200 (- 1)"
    "row_x (sample_data_row ''P1'' None) = Decimal 100 (- 1)"
    "row_y (sample_data_row ''P1'' None) = Decimal 200 (- 1)"
    by (simp_all add: sample_legacy_row_def sample_data_row_def)
  have f: "py_float sample_lib (Decimal 100 (- 1)) = 0x4024000000000000"
    "py_float sample_lib (Decimal 200 (- 1)) = 0x4034000000000000"
    "py_str sample_lib (Decimal 100 (- 1)) = ''10.0''"
    "py_str sample_lib (Decimal 200 (- 1)) = ''20.0''"
    by (simp_all add: sample_lib_def)
  from position_fields_by_trim [OF sample_decode [of "''P1''" None] c]
  have 1: "map_of [(''lon'', PFloat 0x4024000000000000), (''lat'', PFloat 0x4034000000000000),
          (''source'', PStr ''A''), (''time'', PTime (DateTime 0 (Some ''UTC''))),
          (if (None :: string option) = None then ''primary'' else ''secondary'', PList [PInt 1])] ''lon'' =
        Some (PFloat 0x4024000000000000)"
    by (simp add: x f)
  from position_fields_by_trim [OF l h]
  have 2: "map_of (legacy_values sample_lib [(''sst'', Decimal 100 (- 1))]
                    (base_entry sample_lib False sample_legacy_row)) ''lon'' = Some (PStr ''10.0'')"
    "map_of (legacy_values sample_lib [(''sst'', Decimal 100 (- 1))]
                    (base_entry sample_lib False sample_legacy_row)) ''lat'' = Some (PStr ''20.0'')"
    by (simp_all add: x f)
  show ?thesis using 1 2 l by (simp add: sample_decode)
qed

end
